theory Spec2Isabelle
  imports Main
begin

section \<open>Exceptions, external calls and traces\<close>

text \<open>
  Both monitors (\<^verbatim>\<open>snoop_bot.py\<close>, driving Selenium, and \<^verbatim>\<open>visa_monitor.py\<close>, driving
  Playwright) are scripts over an uncontrolled web page and an SMTP relay. The embedding
  keeps the control flow of every method and replaces each library call by a lookup in a
  \<open>world\<close>: the world says, for every call, whether it completes or which exception it
  raises, and for every read what it returns.

  Python separates \<^verbatim>\<open>Exception\<close> from the rest of \<^verbatim>\<open>BaseException\<close>; the handlers of
  the source are \<^verbatim>\<open>except Exception\<close>, \<^verbatim>\<open>except NoSuchElementException\<close>,
  \<^verbatim>\<open>except PlaywrightTimeout\<close>, \<^verbatim>\<open>except KeyboardInterrupt\<close> and the bare \<^verbatim>\<open>except:\<close>.
  \<open>Timeout\<close> stands for Selenium's \<^verbatim>\<open>TimeoutException\<close> and Playwright's
  \<^verbatim>\<open>TimeoutError\<close>; \<open>Other_exception\<close> for any other subclass of \<^verbatim>\<open>Exception\<close>.
\<close>

datatype exn =
    Timeout
  | NoSuchElement
  | Other_exception
  | KeyboardInterrupt
  | SystemExit

fun is_Exception :: "exn \<Rightarrow> bool" where
  "is_Exception KeyboardInterrupt = False"
| "is_Exception SystemExit = False"
| "is_Exception _ = True"

text \<open>
  The elements of the page the scripts address. The source names them by selector:
  ids \<^verbatim>\<open>user_email\<close>, \<^verbatim>\<open>user_password\<close>, \<^verbatim>\<open>policy_confirmed\<close> (and its label),
  the input named \<^verbatim>\<open>commit\<close>, the link with text \<^verbatim>\<open>Continue\<close>, the accordion title and
  the button of the "Reschedule Appointment" item, the dropdown
  \<^verbatim>\<open>appointments_consulate_appointment_facility_id\<close>, the text node
  "System is busy. Please try again later." and the control \<^verbatim>\<open>appointments_submit\<close>.
\<close>

datatype element =
    User_email
  | User_password
  | Policy_confirmed
  | Policy_label
  | Commit
  | Continue_link
  | Accordion_title
  | Reschedule_button
  | Facility_dropdown
  | Busy_message
  | Appointments_submit

record mail =
  mail_from :: "string option"
  mail_to :: "string option"
  mail_subject :: string
  mail_body :: string

text \<open>
  Every library call that acts on the outside. A browser handle is a number, so that
  the session a release is issued for can be told from an older one.
  \<^item> Selenium only: \<open>Chrome_new\<close> is \<^verbatim>\<open>webdriver.Chrome(options=options)\<close>;
    \<open>Execute_cdp_cmd\<close>, \<open>Execute_script_stealth\<close> and \<open>Implicitly_wait\<close> are the three
    calls that follow it in \<^verbatim>\<open>setup_driver\<close>; \<open>Wait_presence\<close> and \<open>Wait_clickable\<close> are
    \<^verbatim>\<open>WebDriverWait(...).until\<close> on \<^verbatim>\<open>presence_of_element_located\<close> and
    \<^verbatim>\<open>element_to_be_clickable\<close>; \<open>Script_click\<close> is
    \<^verbatim>\<open>execute_script("arguments[0].click();", element)\<close>; \<open>Select_new\<close> is
    \<^verbatim>\<open>Select(location_dropdown)\<close>; \<open>Sleep\<close> is \<^verbatim>\<open>time.sleep\<close>, in seconds.
  \<^item> Playwright only: \<open>Playwright_start\<close> is \<^verbatim>\<open>sync_playwright().start()\<close>;
    \<open>Wait_for_selector\<close>, \<open>Fill\<close> and \<open>Wait_for_timeout\<close> (milliseconds) are the
    methods of \<^verbatim>\<open>page\<close> of these names.
  \<^item> In both: \<open>Goto_sign_in\<close> is \<^verbatim>\<open>driver.get\<close> or \<^verbatim>\<open>page.goto\<close> on the sign-in URL;
    \<open>Click\<close> is \<^verbatim>\<open>element.click()\<close> or \<^verbatim>\<open>page.click\<close>; \<open>Scroll_into_view\<close> is the script
    that scrolls the reschedule button into view; \<open>Select_calgary\<close> is
    \<^verbatim>\<open>select_by_visible_text("Calgary")\<close> or \<^verbatim>\<open>select_option(..., label="Calgary")\<close>.
  \<^item> \<open>Mime_build\<close> is the construction of the message (the first six statements of
    \<^verbatim>\<open>send_notification\<close>), \<open>Smtp_open\<close> is \<^verbatim>\<open>smtplib.SMTP('smtp.gmail.com', 587)\<close>,
    \<open>Smtp_exit\<close> the \<^verbatim>\<open>__exit__\<close> of the \<^verbatim>\<open>with\<close> block.
  Building a \<^verbatim>\<open>ChromeOptions\<close> object or a Playwright locator and writing a log record
  are taken not to raise.
\<close>

datatype step =
    Chrome_new
  | Execute_cdp_cmd
  | Execute_script_stealth
  | Implicitly_wait
  | Driver_quit nat
  | Playwright_start
  | Chromium_launch
  | New_context
  | New_page
  | Browser_close nat
  | Playwright_stop
  | Goto_sign_in
  | Wait_presence element
  | Wait_clickable element
  | Wait_for_selector element
  | Find_element element
  | Clear element
  | Send_keys element "string option"
  | Fill element "string option"
  | Click element
  | Script_click element
  | Scroll_into_view element
  | Select_new
  | Select_calgary
  | Sleep nat
  | Wait_for_timeout nat
  | Mime_build
  | Smtp_open
  | Smtp_starttls
  | Smtp_login "string option" "string option"
  | Smtp_send_message mail
  | Smtp_exit

text \<open>
  A world answers every call: \<open>act w s\<close> is \<open>None\<close> when the call \<open>s\<close> completes, and the
  exception it raises otherwise. The four reads return a value or raise: \<open>is_selected\<close>
  stands for \<^verbatim>\<open>is_selected()\<close> and \<^verbatim>\<open>is_checked\<close>, \<open>is_displayed\<close> for \<^verbatim>\<open>is_displayed()\<close>
  and \<^verbatim>\<open>is_visible()\<close>, \<open>get_attribute_disabled\<close> for \<^verbatim>\<open>get_attribute("disabled")\<close>
  (\<open>None\<close> when the element has no such attribute), \<open>page_url\<close> for \<^verbatim>\<open>page.url\<close>. Within
  one check no call site is reached twice, so one world describes one check.
\<close>

record world =
  act :: "step \<Rightarrow> exn option"
  is_selected :: "element \<Rightarrow> exn + bool"
  is_displayed :: "element \<Rightarrow> exn + bool"
  get_attribute_disabled :: "element \<Rightarrow> exn + string option"
  page_url :: "exn + string"

datatype level = INFO | WARNING | ERROR

datatype arg = No_arg | Exn_arg exn | Nat_arg nat | Str_arg string

text \<open>
  The trace of one run: the log records (the format text, and the value an f-string
  interpolates), and every call, with its outcome. The emoji that open three texts of
  the source are left out of the strings.
\<close>

datatype event =
    Log level string arg
  | Done step
  | Failed step exn

type_synonym 'a outcome = "(exn + 'a) \<times> event list"

definition ret :: "'a \<Rightarrow> 'a outcome" where
  "ret x = (Inr x, [])"

definition logging :: "level \<Rightarrow> string \<Rightarrow> arg \<Rightarrow> unit outcome" where
  "logging l s a = (Inr (), [Log l s a])"

definition call :: "world \<Rightarrow> step \<Rightarrow> unit outcome" where
  "call w s = (case act w s of None \<Rightarrow> (Inr (), [Done s]) | Some e \<Rightarrow> (Inl e, [Failed s e]))"

definition read :: "exn + 'a \<Rightarrow> 'a outcome" where
  "read v = (v, [])"

definition bind_o :: "'a outcome \<Rightarrow> ('a \<Rightarrow> 'b outcome) \<Rightarrow> 'b outcome" where
  "bind_o c f =
     (case c of
        (Inl e, tr) \<Rightarrow> (Inl e, tr)
      | (Inr x, tr) \<Rightarrow> (case f x of (r, tr') \<Rightarrow> (r, tr @ tr')))"

definition then_o :: "'a outcome \<Rightarrow> 'b outcome \<Rightarrow> 'b outcome" where
  "then_o c d = bind_o c (\<lambda>_. d)"

text \<open>A straight-line block: calls and log records, stopped by the first exception.\<close>

datatype stmt = Call step | Logging level string

fun exec :: "world \<Rightarrow> stmt list \<Rightarrow> unit outcome" where
  "exec w [] = ret ()"
| "exec w (Logging l s # ss) = then_o (logging l s No_arg) (exec w ss)"
| "exec w (Call s # ss) = then_o (call w s) (exec w ss)"

text \<open>\<^verbatim>\<open>try: c  except Exception as e: h e\<close>\<close>

definition except_Exception :: "'a outcome \<Rightarrow> (exn \<Rightarrow> 'a outcome) \<Rightarrow> 'a outcome" where
  "except_Exception c h =
     (case c of
        (Inl e, tr) \<Rightarrow>
          if is_Exception e then (case h e of (r, tr') \<Rightarrow> (r, tr @ tr')) else (Inl e, tr)
      | (Inr x, tr) \<Rightarrow> (Inr x, tr))"

text \<open>\<^verbatim>\<open>try: c  except X: h\<close> for one exception class \<open>X\<close> without subclasses here.\<close>

definition except_only :: "exn \<Rightarrow> 'a outcome \<Rightarrow> 'a outcome \<Rightarrow> 'a outcome" where
  "except_only x c h =
     (case c of
        (Inl e, tr) \<Rightarrow>
          if e = x then (case h of (r, tr') \<Rightarrow> (r, tr @ tr')) else (Inl e, tr)
      | (Inr y, tr) \<Rightarrow> (Inr y, tr))"

text \<open>\<^verbatim>\<open>try: c  except: h\<close>, which catches every \<^verbatim>\<open>BaseException\<close>.\<close>

definition except_bare :: "'a outcome \<Rightarrow> 'a outcome \<Rightarrow> 'a outcome" where
  "except_bare c h =
     (case c of
        (Inl e, tr) \<Rightarrow> (case h of (r, tr') \<Rightarrow> (r, tr @ tr'))
      | (Inr y, tr) \<Rightarrow> (Inr y, tr))"

text \<open>
  \<^verbatim>\<open>try: c  finally: f\<close>: \<open>f\<close> runs whatever \<open>c\<close> did; an exception of \<open>f\<close> replaces
  the result of \<open>c\<close>, otherwise the result of \<open>c\<close> (a value or an exception) stands.
\<close>

definition try_finally :: "'a outcome \<Rightarrow> unit outcome \<Rightarrow> 'a outcome" where
  "try_finally c f =
     (case c of (r, tr) \<Rightarrow>
        (case f of
           (Inl e, tr') \<Rightarrow> (Inl e, tr @ tr')
         | (Inr _, tr') \<Rightarrow> (r, tr @ tr')))"

section \<open>Credentials and the notifier\<close>

text \<open>\<^verbatim>\<open>os.getenv\<close> gives \<^verbatim>\<open>None\<close> for a variable that is not set.\<close>

record credentials =
  email :: "string option"
  password :: "string option"
  notification_email :: "string option"
  smtp_email :: "string option"
  smtp_password :: "string option"

definition sign_in_url :: string where
  "sign_in_url = ''https://ais.usvisa-info.com/en-ca/niv/users/sign_in''"

text \<open>
  \<^verbatim>\<open>send_notification\<close>, the same text in both files. The \<^verbatim>\<open>with\<close> block leaves through
  \<^verbatim>\<open>SMTP.__exit__\<close> once the connection is open, also when its body raised.
\<close>

definition send_notification :: "world \<Rightarrow> credentials \<Rightarrow> string \<Rightarrow> string \<Rightarrow> unit outcome" where
  "send_notification w c subject message =
     except_Exception
       (then_o (call w Mime_build)
       (then_o (bind_o (call w Smtp_open) (\<lambda>_.
                  try_finally
                    (exec w [Call Smtp_starttls,
                             Call (Smtp_login (smtp_email c) (smtp_password c)),
                             Call (Smtp_send_message
                               \<lparr>mail_from = smtp_email c, mail_to = notification_email c,
                                mail_subject = subject, mail_body = message\<rparr>)])
                    (call w Smtp_exit)))
               (logging INFO ''Notification sent: {}'' (Str_arg subject))))
       (\<lambda>e. logging ERROR ''Failed to send notification: {}'' (Exn_arg e))"

section \<open>The Selenium monitor (snoop_bot.py)\<close>

text \<open>
  \<^verbatim>\<open>setup_driver\<close> assigns \<^verbatim>\<open>self.driver\<close> as soon as \<^verbatim>\<open>webdriver.Chrome\<close> returns; the
  three calls after it can still raise. The second component is \<^verbatim>\<open>self.driver\<close> after the
  call.
\<close>

text \<open>The handle of a newly created session: one the monitor has not held before.\<close>

definition fresh :: "nat option \<Rightarrow> nat" where
  "fresh d = (case d of None \<Rightarrow> 0 | Some k \<Rightarrow> Suc k)"

definition setup_driver :: "world \<Rightarrow> nat option \<Rightarrow> unit outcome \<times> nat option" where
  "setup_driver w d =
     (case act w Chrome_new of
        Some e \<Rightarrow> ((Inl e, [Failed Chrome_new e]), d)
      | None \<Rightarrow>
          (then_o (Inr (), [Done Chrome_new])
             (exec w [Call Execute_cdp_cmd, Call Execute_script_stealth, Call Implicitly_wait]),
           Some (fresh d)))"

definition policy_checkbox_se :: "world \<Rightarrow> unit outcome" where
  "policy_checkbox_se w =
     except_only NoSuchElement
       (then_o (call w (Find_element Policy_confirmed))
          (bind_o (read (is_selected w Policy_confirmed)) (\<lambda>selected.
             if \<not> selected then call w (Script_click Policy_confirmed) else ret ())))
       (ret ())"

text \<open>
  \<^verbatim>\<open>login\<close> in two parts: everything up to the settle wait after the click on the sign-in
  button (\<open>submit_login_se\<close>), and what follows it, which in this file is
  \<^verbatim>\<open>return True\<close> alone.
\<close>

definition submit_login_se :: "world \<Rightarrow> credentials \<Rightarrow> unit outcome" where
  "submit_login_se w c =
     then_o (exec w [Logging INFO ''Navigating to login page...'',
                     Call Goto_sign_in,
                     Call (Wait_presence User_email),
                     Call (Clear User_email),
                     Call (Send_keys User_email (email c)),
                     Call (Find_element User_password),
                     Call (Clear User_password),
                     Call (Send_keys User_password (password c))])
    (then_o (policy_checkbox_se w)
            (exec w [Call (Find_element Commit),
                     Call (Click Commit),
                     Logging INFO ''Login submitted'',
                     Call (Sleep 3)]))"

definition login_se :: "world \<Rightarrow> credentials \<Rightarrow> bool outcome" where
  "login_se w c =
     except_Exception
       (then_o (submit_login_se w c) (ret True))
       (\<lambda>e. then_o (logging ERROR ''Login failed: {}'' (Exn_arg e)) (ret False))"

definition navigate_to_reschedule_se :: "world \<Rightarrow> bool outcome" where
  "navigate_to_reschedule_se w =
     except_Exception
       (then_o (exec w [Logging INFO ''Looking for Continue button...'',
                        Call (Wait_clickable Continue_link),
                        Call (Click Continue_link),
                        Logging INFO ''Expanding 'Reschedule Appointment' accordion...'',
                        Call (Wait_clickable Accordion_title),
                        Call (Click Accordion_title),
                        Logging INFO ''Clicking green 'Reschedule Appointment' button...'',
                        Call (Wait_clickable Reschedule_button),
                        Call (Scroll_into_view Reschedule_button)])
       (then_o (except_bare (call w (Click Reschedule_button))
                            (call w (Script_click Reschedule_button)))
               (ret True)))
       (\<lambda>e. then_o (logging ERROR ''Navigation to reschedule failed: {}'' (Exn_arg e)) (ret False))"

text \<open>
  Python's truth value of what \<^verbatim>\<open>get_attribute("disabled")\<close> returns: \<^verbatim>\<open>None\<close> and the
  empty string are false, every other string is true.
\<close>

definition truthy :: "string option \<Rightarrow> bool" where
  "truthy v = (case v of None \<Rightarrow> False | Some s \<Rightarrow> s \<noteq> [])"

text \<open>
  The busy-message block returns from the method (\<open>Some False\<close>) or falls through
  (\<open>None\<close>).
\<close>

definition busy_check_se :: "world \<Rightarrow> bool option outcome" where
  "busy_check_se w =
     except_only NoSuchElement
       (then_o (call w (Find_element Busy_message))
          (bind_o (read (is_displayed w Busy_message)) (\<lambda>shown.
             if shown
             then then_o (logging INFO ''System is busy - no appointments available'' No_arg)
                         (ret (Some False))
             else ret None)))
       (then_o (logging INFO ''No 'system busy' message found - good sign!'' No_arg) (ret None))"

definition submit_check_se :: "world \<Rightarrow> bool outcome" where
  "submit_check_se w =
     then_o (exec w [Logging INFO ''Checking if Reschedule button is enabled...'',
                     Call (Find_element Appointments_submit)])
       (bind_o (read (get_attribute_disabled w Appointments_submit)) (\<lambda>is_disabled.
          if truthy is_disabled
          then then_o (logging INFO ''Reschedule button is disabled - no appointments available'' No_arg)
                      (ret False)
          else then_o (logging INFO ''Reschedule button is ENABLED - appointments are available!'' No_arg)
                      (ret True)))"

definition check_reschedule_availability_se :: "world \<Rightarrow> bool outcome" where
  "check_reschedule_availability_se w =
     except_Exception
       (then_o (exec w [Logging INFO ''Selecting Calgary location...'',
                        Call (Wait_presence Facility_dropdown),
                        Call Select_new,
                        Call Select_calgary,
                        Call (Sleep 4),
                        Logging INFO ''Checking for system busy message...''])
          (bind_o (busy_check_se w) (\<lambda>returned.
             case returned of
               Some b \<Rightarrow> ret b
             | None \<Rightarrow> submit_check_se w)))
       (\<lambda>e. then_o (logging ERROR ''Availability check failed: {}'' (Exn_arg e)) (ret False))"

definition available_subject :: string where
  "available_subject = ''US Visa Appointment Available in Calgary!''"

definition available_message :: string where
  "available_message =
     ''APPOINTMENT AVAILABLE!'' @ [CHR 0x0A, CHR 0x0A] @
     ''The Reschedule button is now ENABLED in Calgary!'' @ [CHR 0x0A] @
     ''This means appointment slots have opened up.'' @ [CHR 0x0A, CHR 0x0A] @
     ''Log in immediately to book your appointment:'' @ [CHR 0x0A] @
     sign_in_url"

text \<open>
  What \<^verbatim>\<open>check_appointments\<close> does with the answer of the probe, the same text in both
  files: the branch that sends the "available" mail is taken when
  \<^verbatim>\<open>is_available == False\<close>.
\<close>

definition notify_or_not :: "world \<Rightarrow> credentials \<Rightarrow> bool \<Rightarrow> bool outcome" where
  "notify_or_not w c is_available =
     (if is_available = False
      then then_o (send_notification w c available_subject available_message) (ret True)
      else then_o (logging INFO ''No available appointments - system is busy or button disabled'' No_arg)
                  (ret False))"

definition pipeline_se :: "world \<Rightarrow> credentials \<Rightarrow> bool outcome" where
  "pipeline_se w c =
     bind_o (login_se w c) (\<lambda>logged_in.
       if \<not> logged_in then ret False
       else bind_o (navigate_to_reschedule_se w) (\<lambda>reached.
         if \<not> reached then ret False
         else bind_o (check_reschedule_availability_se w) (notify_or_not w c)))"

definition quit_driver :: "world \<Rightarrow> nat option \<Rightarrow> unit outcome" where
  "quit_driver w d = (case d of None \<Rightarrow> ret () | Some s \<Rightarrow> call w (Driver_quit s))"

text \<open>
  \<^verbatim>\<open>check_appointments\<close> of snoop_bot.py. The first argument after the world and the
  credentials is \<^verbatim>\<open>self.driver\<close> before the call; it is \<^verbatim>\<open>None\<close> on a new monitor and
  keeps the handle of the last check afterwards.
\<close>

definition check_appointments_se ::
  "world \<Rightarrow> credentials \<Rightarrow> nat option \<Rightarrow> bool outcome \<times> nat option" where
  "check_appointments_se w c d =
     (case setup_driver w d of (started, d') \<Rightarrow>
        (try_finally
           (except_Exception
              (then_o started (pipeline_se w c))
              (\<lambda>e. then_o (logging ERROR ''Check failed: {}'' (Exn_arg e)) (ret False)))
           (quit_driver w d'),
         d'))"

section \<open>The Playwright monitor (visa_monitor.py)\<close>

text \<open>\<^verbatim>\<open>p in s\<close> on strings, by \<^verbatim>\<open>s.startswith(p)\<close> at every position of \<open>s\<close>.\<close>

fun starts_with :: "string \<Rightarrow> string \<Rightarrow> bool" where
  "starts_with [] s = True"
| "starts_with (p # ps) [] = False"
| "starts_with (p # ps) (x # xs) = (p = x \<and> starts_with ps xs)"

fun contains :: "string \<Rightarrow> string \<Rightarrow> bool" where
  "contains p [] = starts_with p []"
| "contains p (x # xs) = (starts_with p (x # xs) \<or> contains p xs)"

text \<open>
  The checkbox block has two handlers, \<^verbatim>\<open>except PlaywrightTimeout\<close> and then
  \<^verbatim>\<open>except Exception as e\<close>; both log a warning and go on.
\<close>

definition policy_checkbox_pw :: "world \<Rightarrow> unit outcome" where
  "policy_checkbox_pw w =
     except_Exception
       (then_o (exec w [Logging INFO ''Looking for policy checkbox...'',
                        Call (Wait_for_selector Policy_confirmed)])
          (bind_o (read (is_selected w Policy_confirmed)) (\<lambda>checked.
             if \<not> checked
             then exec w [Logging INFO ''Checking policy checkbox by clicking label...'',
                          Call (Click Policy_label),
                          Call (Wait_for_timeout 500),
                          Logging INFO ''Policy checkbox checked successfully'']
             else logging INFO ''Policy checkbox already checked'' No_arg)))
       (\<lambda>e. if e = Timeout
             then logging WARNING ''Policy checkbox not found - it may not be required'' No_arg
             else logging WARNING ''Could not check policy checkbox: {}'' (Exn_arg e))"

text \<open>
  \<^verbatim>\<open>login\<close> of visa_monitor.py is split like the one of snoop_bot.py, at the settle wait.
  The verification after the submission returns from the method (\<open>Some False\<close>) when
  the URL still holds \<^verbatim>\<open>sign_in\<close>, and falls through (\<open>None\<close>) otherwise, also when
  reading the URL raised.
\<close>

definition verify_login_pw :: "world \<Rightarrow> bool option outcome" where
  "verify_login_pw w =
     except_bare
       (bind_o (read (page_url w)) (\<lambda>current_url.
          then_o (logging INFO ''Current URL after login: {}'' (Str_arg current_url))
            (if contains ''sign_in'' current_url
             then then_o (logging ERROR ''Still on login page - login may have failed'' No_arg)
                         (ret (Some False))
             else ret None)))
       (ret None)"

definition submit_login_pw :: "world \<Rightarrow> credentials \<Rightarrow> unit outcome" where
  "submit_login_pw w c =
     then_o (exec w [Logging INFO ''Navigating to login page...'',
                     Call Goto_sign_in,
                     Call (Wait_for_selector User_email),
                     Call (Fill User_email (email c)),
                     Call (Fill User_password (password c))])
    (then_o (policy_checkbox_pw w)
            (exec w [Logging INFO ''Clicking sign in button...'',
                     Call (Click Commit),
                     Logging INFO ''Login submitted'',
                     Call (Wait_for_timeout 3000)]))"

definition login_pw :: "world \<Rightarrow> credentials \<Rightarrow> bool outcome" where
  "login_pw w c =
     except_Exception
       (then_o (submit_login_pw w c)
          (bind_o (verify_login_pw w) (\<lambda>returned.
             case returned of
               Some b \<Rightarrow> ret b
             | None \<Rightarrow> ret True)))
       (\<lambda>e. then_o (logging ERROR ''Login failed: {}'' (Exn_arg e)) (ret False))"

definition navigate_to_reschedule_pw :: "world \<Rightarrow> bool outcome" where
  "navigate_to_reschedule_pw w =
     except_Exception
       (then_o (exec w [Logging INFO ''Looking for Continue button...'',
                        Call (Wait_for_selector Continue_link),
                        Call (Click Continue_link),
                        Logging INFO ''Expanding 'Reschedule Appointment' accordion...'',
                        Call (Wait_for_selector Accordion_title),
                        Call (Click Accordion_title),
                        Logging INFO ''Clicking green 'Reschedule Appointment' button...'',
                        Call (Wait_for_selector Reschedule_button),
                        Call (Scroll_into_view Reschedule_button),
                        Call (Click Reschedule_button)])
               (ret True))
       (\<lambda>e. then_o (logging ERROR ''Navigation to reschedule failed: {}'' (Exn_arg e)) (ret False))"

text \<open>
  \<^verbatim>\<open>page.locator\<close> only builds a locator; the page is asked by \<^verbatim>\<open>is_visible\<close> and by
  \<^verbatim>\<open>get_attribute\<close>. The handler of the busy-message block is a bare \<^verbatim>\<open>except:\<close>.
\<close>

definition busy_check_pw :: "world \<Rightarrow> bool option outcome" where
  "busy_check_pw w =
     except_bare
       (bind_o (read (is_displayed w Busy_message)) (\<lambda>visible.
          if visible
          then then_o (logging INFO ''System is busy - no appointments available'' No_arg)
                      (ret (Some False))
          else ret None))
       (then_o (logging INFO ''No 'system busy' message found - good sign!'' No_arg) (ret None))"

definition submit_check_pw :: "world \<Rightarrow> bool outcome" where
  "submit_check_pw w =
     then_o (logging INFO ''Checking if Reschedule button is enabled...'' No_arg)
       (bind_o (read (get_attribute_disabled w Appointments_submit)) (\<lambda>is_disabled.
          if truthy is_disabled
          then then_o (logging INFO ''Reschedule button is disabled - no appointments available'' No_arg)
                      (ret False)
          else then_o (logging INFO ''Reschedule button is ENABLED - appointments are available!'' No_arg)
                      (ret True)))"

definition check_reschedule_availability_pw :: "world \<Rightarrow> bool outcome" where
  "check_reschedule_availability_pw w =
     except_Exception
       (then_o (exec w [Logging INFO ''Selecting Calgary location...'',
                        Call (Wait_for_selector Facility_dropdown),
                        Call Select_calgary,
                        Call (Wait_for_timeout 4000),
                        Logging INFO ''Checking for system busy message...''])
          (bind_o (busy_check_pw w) (\<lambda>returned.
             case returned of
               Some b \<Rightarrow> ret b
             | None \<Rightarrow> submit_check_pw w)))
       (\<lambda>e. then_o (logging ERROR ''Availability check failed: {}'' (Exn_arg e)) (ret False))"

definition pipeline_pw :: "world \<Rightarrow> credentials \<Rightarrow> bool outcome" where
  "pipeline_pw w c =
     bind_o (login_pw w c) (\<lambda>logged_in.
       if \<not> logged_in then ret False
       else bind_o (navigate_to_reschedule_pw w) (\<lambda>reached.
         if \<not> reached then ret False
         else bind_o (check_reschedule_availability_pw w) (notify_or_not w c)))"

text \<open>
  The start of \<^verbatim>\<open>check_appointments\<close> of visa_monitor.py: the outcome, \<^verbatim>\<open>self.browser\<close>
  afterwards, and whether the local \<^verbatim>\<open>playwright\<close> has been assigned. \<^verbatim>\<open>self.page\<close> is
  written last and only read after that, so it is not kept.
\<close>

definition start_browser_pw :: "world \<Rightarrow> nat option \<Rightarrow> unit outcome \<times> nat option \<times> bool" where
  "start_browser_pw w b =
     (case act w Playwright_start of
        Some e \<Rightarrow> ((Inl e, [Failed Playwright_start e]), b, False)
      | None \<Rightarrow>
          (case act w Chromium_launch of
             Some e \<Rightarrow> ((Inl e, [Done Playwright_start, Failed Chromium_launch e]), b, True)
           | None \<Rightarrow>
               (then_o (Inr (), [Done Playwright_start, Done Chromium_launch])
                  (exec w [Call New_context, Call New_page]),
                Some (fresh b), True)))"

definition close_browser_pw :: "world \<Rightarrow> nat option \<Rightarrow> bool \<Rightarrow> unit outcome" where
  "close_browser_pw w b playwright =
     then_o (case b of None \<Rightarrow> ret () | Some s \<Rightarrow> call w (Browser_close s))
            (if playwright then call w Playwright_stop else ret ())"

definition check_appointments_pw ::
  "world \<Rightarrow> credentials \<Rightarrow> nat option \<Rightarrow> bool outcome \<times> nat option" where
  "check_appointments_pw w c b =
     (case start_browser_pw w b of (started, b', playwright) \<Rightarrow>
        (try_finally
           (except_Exception
              (then_o started (pipeline_pw w c))
              (\<lambda>e. then_o (logging ERROR ''Check failed: {}'' (Exn_arg e)) (ret False)))
           (close_browser_pw w b' playwright),
         b'))"

section \<open>The monitor loop and the entry points\<close>

text \<open>
  \<^verbatim>\<open>while True\<close> has no exit of its own. The loop is run against a list of worlds, one
  for each iteration (the page, the relay and the clock as they answer during that
  iteration); when the list is used up the loop is \<open>Still_running\<close>. \<open>Interrupted\<close>
  is the \<^verbatim>\<open>break\<close> of the \<^verbatim>\<open>KeyboardInterrupt\<close> handler, \<open>Raised\<close> an exception that
  leaves \<^verbatim>\<open>run_monitor\<close>.
\<close>

datatype loop_exit = Still_running | Interrupted | Raised exn

type_synonym run = "(loop_exit \<times> event list) \<times> nat option"

definition after :: "event list \<Rightarrow> run \<Rightarrow> run" where
  "after tr r = (case r of ((x, tr'), d) \<Rightarrow> ((x, tr @ tr'), d))"

fun monitor_loop ::
  "(world \<Rightarrow> nat option \<Rightarrow> bool outcome \<times> nat option) \<Rightarrow> nat \<Rightarrow> world list \<Rightarrow> nat option \<Rightarrow> run" where
  "monitor_loop chk check_interval [] d = ((Still_running, []), d)"
| "monitor_loop chk check_interval (w # ws) d =
     (case chk w d of (checked, d') \<Rightarrow>
        (case then_o (logging INFO ''Starting appointment check...'' No_arg)
             (then_o checked
             (then_o (logging INFO ''Check complete. Waiting {} seconds until next check...''
                        (Nat_arg check_interval))
                     (call w (Sleep check_interval)))) of
           (Inr _, tr) \<Rightarrow> after tr (monitor_loop chk check_interval ws d')
         | (Inl e, tr) \<Rightarrow>
             if e = KeyboardInterrupt
             then ((Interrupted, tr @ [Log INFO ''Monitor stopped by user'' No_arg]), d')
             else if is_Exception e
             then (case then_o (logging ERROR ''Error in monitor loop: {}'' (Exn_arg e))
                               (call w (Sleep check_interval)) of
                     (Inr _, tr') \<Rightarrow> after (tr @ tr') (monitor_loop chk check_interval ws d')
                   | (Inl e', tr') \<Rightarrow> ((Raised e', tr @ tr'), d'))
             else ((Raised e, tr), d')))"

definition started_subject :: string where
  "started_subject = ''Visa Monitor Started''"

definition started_message :: string where
  "started_message =
     ''The appointment monitoring bot has started. You'll receive notifications when appointments become available.''"

text \<open>
  \<^verbatim>\<open>run_monitor\<close>, the same text in both files but for the check it calls: \<open>w0\<close> is the
  world while the start-up mail is sent.
\<close>

definition run_monitor ::
  "(world \<Rightarrow> nat option \<Rightarrow> bool outcome \<times> nat option) \<Rightarrow> world \<Rightarrow> credentials \<Rightarrow> nat \<Rightarrow>
     world list \<Rightarrow> nat option \<Rightarrow> run" where
  "run_monitor chk w0 c check_interval ws d =
     (case then_o (logging INFO ''Starting visa appointment monitor...'' No_arg)
                  (send_notification w0 c started_subject started_message) of
        (Inl e, tr) \<Rightarrow> ((Raised e, tr), d)
      | (Inr _, tr) \<Rightarrow> after tr (monitor_loop chk check_interval ws d))"

definition run_monitor_se :: "world \<Rightarrow> credentials \<Rightarrow> nat \<Rightarrow> world list \<Rightarrow> nat option \<Rightarrow> run" where
  "run_monitor_se w0 c = run_monitor (\<lambda>w. check_appointments_se w c) w0 c"

definition run_monitor_pw :: "world \<Rightarrow> credentials \<Rightarrow> nat \<Rightarrow> world list \<Rightarrow> nat option \<Rightarrow> run" where
  "run_monitor_pw w0 c = run_monitor (\<lambda>w. check_appointments_pw w c) w0 c"

text \<open>
  The three \<^verbatim>\<open>__main__\<close> blocks read the five variables with \<^verbatim>\<open>os.getenv\<close> and pass what
  they get to the constructor, which stores it and sets the browser handle to \<^verbatim>\<open>None\<close>.
\<close>

definition credentials_of_env :: "(string \<Rightarrow> string option) \<Rightarrow> credentials" where
  "credentials_of_env getenv =
     \<lparr>email = getenv ''VISA_EMAIL'',
      password = getenv ''VISA_PASSWORD'',
      notification_email = getenv ''NOTIFICATION_EMAIL'',
      smtp_email = getenv ''SMTP_EMAIL'',
      smtp_password = getenv ''SMTP_APP_PASSWORD''\<rparr>"

definition main_snoop_bot :: "(string \<Rightarrow> string option) \<Rightarrow> world \<Rightarrow> world list \<Rightarrow> run" where
  "main_snoop_bot getenv w0 ws = run_monitor_se w0 (credentials_of_env getenv) 30 ws None"

definition main_visa_monitor :: "(string \<Rightarrow> string option) \<Rightarrow> world \<Rightarrow> world list \<Rightarrow> run" where
  "main_visa_monitor getenv w0 ws = run_monitor_pw w0 (credentials_of_env getenv) 1800 ws None"

definition main_check_once :: "(string \<Rightarrow> string option) \<Rightarrow> world \<Rightarrow> unit outcome" where
  "main_check_once getenv w =
     then_o (logging INFO ''Starting scheduled appointment check...'' No_arg)
    (then_o (fst (check_appointments_pw w (credentials_of_env getenv) None))
            (logging INFO ''Check complete. Exiting.'' No_arg))"

section \<open>Reading a trace\<close>

text \<open>How often a call was issued, whatever came of it, and how often it completed.\<close>

fun is_call :: "step \<Rightarrow> event \<Rightarrow> bool" where
  "is_call s (Done s') = (s = s')"
| "is_call s (Failed s' e) = (s = s')"
| "is_call s (Log l t a) = False"

definition calls :: "step \<Rightarrow> event list \<Rightarrow> nat" where
  "calls s tr = length (filter (is_call s) tr)"

text \<open>The mails the relay accepted, and the sends that were tried.\<close>

fun is_sent :: "event \<Rightarrow> bool" where
  "is_sent (Done (Smtp_send_message m)) = True"
| "is_sent _ = False"

fun is_send_attempt :: "event \<Rightarrow> bool" where
  "is_send_attempt (Done (Smtp_send_message m)) = True"
| "is_send_attempt (Failed (Smtp_send_message m) e) = True"
| "is_send_attempt _ = False"

definition mails_sent :: "event list \<Rightarrow> nat" where
  "mails_sent tr = length (filter is_sent tr)"

definition send_attempts :: "event list \<Rightarrow> nat" where
  "send_attempts tr = length (filter is_send_attempt tr)"

text \<open>A world in which every call completes, the checkbox is ticked already, no busy
  message shows, the submit control has the given \<^verbatim>\<open>disabled\<close> attribute and the browser
  is at the given URL.\<close>

definition calm :: "string option \<Rightarrow> string \<Rightarrow> world" where
  "calm disabled url =
     \<lparr>act = (\<lambda>s. None),
      is_selected = (\<lambda>el. Inr True),
      is_displayed = (\<lambda>el. Inr False),
      get_attribute_disabled = (\<lambda>el. Inr disabled),
      page_url = Inr url\<rparr>"

text \<open>
  The spec's three verdicts, read off what the probe returns and logs: the probe
  returns \<^verbatim>\<open>True\<close> for Available and \<^verbatim>\<open>False\<close> otherwise, and only its outer handler
  logs an error. A probe that an interrupt leaves has no verdict.
\<close>

datatype verdict = Available | Unavailable | Indeterminate

fun is_error :: "event \<Rightarrow> bool" where
  "is_error (Log ERROR t a) = True"
| "is_error _ = False"

definition errors :: "event list \<Rightarrow> nat" where
  "errors tr = length (filter is_error tr)"

definition verdict :: "bool outcome \<Rightarrow> verdict option" where
  "verdict r =
     (case fst r of
        Inl e \<Rightarrow> None
      | Inr b \<Rightarrow>
          if b then Some Available
          else if errors (snd r) = 0 then Some Unavailable
          else Some Indeterminate)"

section \<open>Parts of a check\<close>

text \<open>A step that only the \<^verbatim>\<open>finally\<close> blocks issue: the release of a browser handle.\<close>

fun is_release :: "step \<Rightarrow> bool" where
  "is_release (Driver_quit s) = True"
| "is_release (Browser_close s) = True"
| "is_release _ = False"

text \<open>
  A check is its \<^verbatim>\<open>try\<close> block under the \<^verbatim>\<open>except Exception\<close> handler, followed by the
  \<^verbatim>\<open>finally\<close> block; the first part by itself:
\<close>

definition guarded_se :: "world \<Rightarrow> credentials \<Rightarrow> nat option \<Rightarrow> bool outcome" where
  "guarded_se w c d =
     except_Exception
       (then_o (fst (setup_driver w d)) (pipeline_se w c))
       (\<lambda>e. then_o (logging ERROR ''Check failed: {}'' (Exn_arg e)) (ret False))"

definition guarded_pw :: "world \<Rightarrow> credentials \<Rightarrow> nat option \<Rightarrow> bool outcome" where
  "guarded_pw w c b =
     except_Exception
       (then_o (fst (start_browser_pw w b)) (pipeline_pw w c))
       (\<lambda>e. then_o (logging ERROR ''Check failed: {}'' (Exn_arg e)) (ret False))"

section \<open>Conditions on a world\<close>

text \<open>The probe gets as far as looking at the page: the location is selected and the
  settle wait is over.\<close>

definition reaches_inspection_se :: "world \<Rightarrow> bool" where
  "reaches_inspection_se w =
     (act w (Wait_presence Facility_dropdown) = None \<and> act w Select_new = None \<and>
      act w Select_calgary = None \<and> act w (Sleep 4) = None)"

definition reaches_inspection_pw :: "world \<Rightarrow> bool" where
  "reaches_inspection_pw w =
     (act w (Wait_for_selector Facility_dropdown) = None \<and> act w Select_calgary = None \<and>
      act w (Wait_for_timeout 4000) = None)"

text \<open>The busy text node is there and visible.\<close>

definition busy_shown_se :: "world \<Rightarrow> bool" where
  "busy_shown_se w =
     (act w (Find_element Busy_message) = None \<and> is_displayed w Busy_message = Inr True)"

definition busy_shown_pw :: "world \<Rightarrow> bool" where
  "busy_shown_pw w = (is_displayed w Busy_message = Inr True)"

text \<open>
  The busy text node is not there, or not visible. Selenium reports a node that is not
  there by \<^verbatim>\<open>NoSuchElementException\<close>; Playwright's \<^verbatim>\<open>is_visible\<close> answers \<^verbatim>\<open>False\<close>.
\<close>

definition busy_hidden_se :: "world \<Rightarrow> bool" where
  "busy_hidden_se w =
     (act w (Find_element Busy_message) = Some NoSuchElement \<or>
      act w (Find_element Busy_message) = None \<and> is_displayed w Busy_message = Inr False)"

definition busy_hidden_pw :: "world \<Rightarrow> bool" where
  "busy_hidden_pw w = (is_displayed w Busy_message = Inr False)"

text \<open>The submit control is found and its \<^verbatim>\<open>disabled\<close> attribute reads as \<open>v\<close>.\<close>

definition submit_reads_se :: "world \<Rightarrow> string option \<Rightarrow> bool" where
  "submit_reads_se w v =
     (act w (Find_element Appointments_submit) = None \<and>
      get_attribute_disabled w Appointments_submit = Inr v)"

definition submit_reads_pw :: "world \<Rightarrow> string option \<Rightarrow> bool" where
  "submit_reads_pw w v = (get_attribute_disabled w Appointments_submit = Inr v)"

definition busy_world :: world where
  "busy_world = (calm None ''https://ais.usvisa-info.com/en-ca/niv/groups/1'')
     \<lparr>is_displayed := (\<lambda>el. Inr True)\<rparr>"

definition disabled_world :: world where
  "disabled_world = calm (Some ''true'') ''https://ais.usvisa-info.com/en-ca/niv/groups/1''"

definition enabled_world :: world where
  "enabled_world = calm None ''https://ais.usvisa-info.com/en-ca/niv/groups/1''"

text \<open>A browser session is created: the constructor of the browser handle returns.\<close>

definition session_created_se :: "world \<Rightarrow> bool" where
  "session_created_se w = (act w Chrome_new = None)"

definition session_created_pw :: "world \<Rightarrow> bool" where
  "session_created_pw w = (act w Playwright_start = None \<and> act w Chromium_launch = None)"

text \<open>The check starts its browser, logs in, reaches the reschedule page, and the probe
  returns \<open>a\<close>.\<close>

definition runs_to_probe_se :: "world \<Rightarrow> credentials \<Rightarrow> nat option \<Rightarrow> bool \<Rightarrow> bool" where
  "runs_to_probe_se w c d a =
     (fst (fst (setup_driver w d)) = Inr () \<and> fst (login_se w c) = Inr True \<and>
      fst (navigate_to_reschedule_se w) = Inr True \<and>
      fst (check_reschedule_availability_se w) = Inr a)"

definition runs_to_probe_pw :: "world \<Rightarrow> credentials \<Rightarrow> nat option \<Rightarrow> bool \<Rightarrow> bool" where
  "runs_to_probe_pw w c b a =
     (fst (fst (start_browser_pw w b)) = Inr () \<and> fst (login_pw w c) = Inr True \<and>
      fst (navigate_to_reschedule_pw w) = Inr True \<and>
      fst (check_reschedule_availability_pw w) = Inr a)"

text \<open>Nothing interrupts the notifier, and the \<^verbatim>\<open>finally\<close> block raises nothing.\<close>

definition notifier_returns :: "world \<Rightarrow> credentials \<Rightarrow> bool" where
  "notifier_returns w c =
     (fst (send_notification w c available_subject available_message) = Inr ())"

definition teardown_returns_se :: "world \<Rightarrow> nat option \<Rightarrow> bool" where
  "teardown_returns_se w d = (fst (quit_driver w (snd (setup_driver w d))) = Inr ())"

definition teardown_returns_pw :: "world \<Rightarrow> nat option \<Rightarrow> bool" where
  "teardown_returns_pw w b =
     (case start_browser_pw w b of (started, b', playwright) \<Rightarrow>
        fst (close_browser_pw w b' playwright) = Inr ())"

text \<open>Sample inputs: a full credential set, a world in which one call raises and every
  other call completes, and a world in which the browser stays on the sign-in page.\<close>

definition sample_credentials :: credentials where
  "sample_credentials =
     \<lparr>email = Some ''applicant@example.com'', password = Some ''secret'',
      notification_email = Some ''me@example.com'', smtp_email = Some ''bot@gmail.com'',
      smtp_password = Some ''app-password''\<rparr>"

definition failing :: "step \<Rightarrow> exn \<Rightarrow> world" where
  "failing s e = enabled_world \<lparr>act := (\<lambda>s'. if s' = s then Some e else None)\<rparr>"

definition stuck_world :: world where
  "stuck_world = calm (Some ''true'') sign_in_url"

text \<open>The mail \<^verbatim>\<open>check_appointments\<close> builds, as the sample credentials address it, and an
  environment in which \<^verbatim>\<open>VISA_EMAIL\<close> is not set.\<close>

definition available_mail :: mail where
  "available_mail =
     \<lparr>mail_from = Some ''bot@gmail.com'', mail_to = Some ''me@example.com'',
      mail_subject = available_subject, mail_body = available_message\<rparr>"

definition env_without_email :: "string \<Rightarrow> string option" where
  "env_without_email v = (if v = ''VISA_EMAIL'' then None else Some ''value'')"

section \<open>Properties\<close>

lemmas o_defs = ret_def logging_def call_def read_def bind_o_def then_o_def
  except_Exception_def except_only_def except_bare_def try_finally_def

lemmas world_defs = calm_def busy_world_def disabled_world_def enabled_world_def
  failing_def stuck_world_def

subsection \<open>The verdict of the probe\<close>

lemma probe_se_busy:
  assumes "reaches_inspection_se w" and "busy_shown_se w"
  shows "verdict (check_reschedule_availability_se w) = Some Unavailable"
  using assms
  by (simp add: reaches_inspection_se_def busy_shown_se_def verdict_def errors_def
      check_reschedule_availability_se_def busy_check_se_def o_defs)

lemma probe_se_submit:
  assumes "reaches_inspection_se w" and "busy_hidden_se w" and "submit_reads_se w v"
  shows "verdict (check_reschedule_availability_se w) =
           Some (if truthy v then Unavailable else Available)"
  using assms
  by (auto simp add: reaches_inspection_se_def busy_hidden_se_def submit_reads_se_def
      verdict_def errors_def check_reschedule_availability_se_def busy_check_se_def
      submit_check_se_def o_defs)

lemma probe_pw_busy:
  assumes "reaches_inspection_pw w" and "busy_shown_pw w"
  shows "verdict (check_reschedule_availability_pw w) = Some Unavailable"
  using assms
  by (simp add: reaches_inspection_pw_def busy_shown_pw_def verdict_def errors_def
      check_reschedule_availability_pw_def busy_check_pw_def o_defs)

lemma probe_pw_submit:
  assumes "reaches_inspection_pw w" and "busy_hidden_pw w" and "submit_reads_pw w v"
  shows "verdict (check_reschedule_availability_pw w) =
           Some (if truthy v then Unavailable else Available)"
  using assms
  by (auto simp add: reaches_inspection_pw_def busy_hidden_pw_def submit_reads_pw_def
      verdict_def errors_def check_reschedule_availability_pw_def busy_check_pw_def
      submit_check_pw_def o_defs)

text \<open>
  C2. In both monitors, a probe that reaches the inspection of the page answers
  Unavailable when the busy text node is there and visible, whatever the submit control
  says; when the node is not shown it answers Unavailable for a \<^verbatim>\<open>disabled\<close> attribute
  that is true in Python's sense and Available for one that is false (\<^verbatim>\<open>None\<close>, the
  attribute is absent; an attribute with the empty string as value is false as well).
\<close>

theorem probe_verdict:
  "(reaches_inspection_se w \<and> busy_shown_se w \<longrightarrow>
      verdict (check_reschedule_availability_se w) = Some Unavailable) \<and>
   (reaches_inspection_se w \<and> busy_hidden_se w \<and> submit_reads_se w v \<longrightarrow>
      verdict (check_reschedule_availability_se w) =
        Some (if truthy v then Unavailable else Available)) \<and>
   (reaches_inspection_pw w \<and> busy_shown_pw w \<longrightarrow>
      verdict (check_reschedule_availability_pw w) = Some Unavailable) \<and>
   (reaches_inspection_pw w \<and> busy_hidden_pw w \<and> submit_reads_pw w v \<longrightarrow>
      verdict (check_reschedule_availability_pw w) =
        Some (if truthy v then Unavailable else Available))"
  using probe_se_busy probe_se_submit probe_pw_busy probe_pw_submit by blast

theorem probe_verdict_witness:
  "reaches_inspection_se busy_world \<and> busy_shown_se busy_world \<and>
   reaches_inspection_pw busy_world \<and> busy_shown_pw busy_world \<and>
   verdict (check_reschedule_availability_se busy_world) = Some Unavailable \<and>
   verdict (check_reschedule_availability_pw busy_world) = Some Unavailable \<and>
   reaches_inspection_se disabled_world \<and> busy_hidden_se disabled_world \<and>
   submit_reads_se disabled_world (Some ''true'') \<and>
   reaches_inspection_pw disabled_world \<and> busy_hidden_pw disabled_world \<and>
   submit_reads_pw disabled_world (Some ''true'') \<and>
   verdict (check_reschedule_availability_se disabled_world) = Some Unavailable \<and>
   verdict (check_reschedule_availability_pw disabled_world) = Some Unavailable \<and>
   reaches_inspection_se enabled_world \<and> busy_hidden_se enabled_world \<and>
   submit_reads_se enabled_world None \<and>
   reaches_inspection_pw enabled_world \<and> busy_hidden_pw enabled_world \<and>
   submit_reads_pw enabled_world None \<and>
   verdict (check_reschedule_availability_se enabled_world) = Some Available \<and>
   verdict (check_reschedule_availability_pw enabled_world) = Some Available"
proof -
  have hyps:
    "reaches_inspection_se busy_world" "busy_shown_se busy_world"
    "reaches_inspection_pw busy_world" "busy_shown_pw busy_world"
    "reaches_inspection_se disabled_world" "busy_hidden_se disabled_world"
    "submit_reads_se disabled_world (Some ''true'')"
    "reaches_inspection_pw disabled_world" "busy_hidden_pw disabled_world"
    "submit_reads_pw disabled_world (Some ''true'')"
    "reaches_inspection_se enabled_world" "busy_hidden_se enabled_world"
    "submit_reads_se enabled_world None"
    "reaches_inspection_pw enabled_world" "busy_hidden_pw enabled_world"
    "submit_reads_pw enabled_world None"
    by (simp_all add: world_defs reaches_inspection_se_def reaches_inspection_pw_def
        busy_shown_se_def busy_shown_pw_def busy_hidden_se_def busy_hidden_pw_def
        submit_reads_se_def submit_reads_pw_def)
  show ?thesis
    using hyps probe_verdict [of busy_world None]
      probe_verdict [of disabled_world "Some ''true''"]
      probe_verdict [of enabled_world None]
    by (simp add: truthy_def)
qed

lemmas se_defs = check_appointments_se_def setup_driver_def pipeline_se_def login_se_def
  submit_login_se_def policy_checkbox_se_def navigate_to_reschedule_se_def
  check_reschedule_availability_se_def busy_check_se_def submit_check_se_def
  notify_or_not_def send_notification_def quit_driver_def fresh_def

lemmas pw_defs = check_appointments_pw_def start_browser_pw_def pipeline_pw_def login_pw_def
  submit_login_pw_def policy_checkbox_pw_def verify_login_pw_def navigate_to_reschedule_pw_def
  check_reschedule_availability_pw_def busy_check_pw_def submit_check_pw_def
  notify_or_not_def send_notification_def close_browser_pw_def fresh_def

subsection \<open>Results and traces of the combinators\<close>

lemma fst_bind_o:
  "fst (bind_o c f) = (case fst c of Inl e \<Rightarrow> Inl e | Inr x \<Rightarrow> fst (f x))"
  by (cases c) (simp add: bind_o_def split: prod.splits sum.splits)

lemma fst_then_o:
  "fst (then_o c d) = (case fst c of Inl e \<Rightarrow> Inl e | Inr x \<Rightarrow> fst d)"
  by (simp add: then_o_def fst_bind_o)

lemma fst_try_finally:
  "fst (try_finally c f) = (case fst f of Inl e \<Rightarrow> Inl e | Inr x \<Rightarrow> fst c)"
  by (cases c; cases f) (simp add: try_finally_def split: prod.splits sum.splits)

lemma snd_try_finally: "snd (try_finally c f) = snd c @ snd f"
  by (cases c; cases f) (simp add: try_finally_def split: sum.splits)

lemma fst_except_Exception_Inr:
  "fst c = Inr x \<Longrightarrow> fst (except_Exception c h) = Inr x"
  by (cases c) (simp add: except_Exception_def)

lemma fst_except_Exception_Inl:
  "fst c = Inl e \<Longrightarrow> \<not> is_Exception e \<Longrightarrow> fst (except_Exception c h) = Inl e"
  by (cases c) (simp add: except_Exception_def)

subsection \<open>Calls that a computation never issues\<close>

lemma calls_append: "calls s (a @ b) = calls s a + calls s b"
  by (simp add: calls_def)

lemma calls_simps:
  "calls q [] = 0"
  "calls q (Done s # tr) = (if q = s then Suc (calls q tr) else calls q tr)"
  "calls q (Failed s e # tr) = (if q = s then Suc (calls q tr) else calls q tr)"
  "calls q (Log l t a # tr) = calls q tr"
  by (simp_all add: calls_def)

lemma quiet_ret: "calls q (snd (ret x)) = 0"
  by (simp add: ret_def calls_def)

lemma quiet_logging: "calls q (snd (logging l s a)) = 0"
  by (simp add: logging_def calls_def)

lemma quiet_read: "calls q (snd (read v)) = 0"
  by (simp add: read_def calls_def)

lemma quiet_call: "q \<noteq> s \<Longrightarrow> calls q (snd (call w s)) = 0"
  by (simp add: call_def calls_def split: option.splits)

lemma quiet_bind_o:
  assumes "calls q (snd c) = 0" and "\<And>x. calls q (snd (f x)) = 0"
  shows "calls q (snd (bind_o c f)) = 0"
proof (cases c)
  case (Pair r tr)
  show ?thesis
  proof (cases r)
    case (Inl e)
    with Pair assms(1) show ?thesis by (simp add: bind_o_def)
  next
    case (Inr x)
    obtain r' tr' where fx: "f x = (r', tr')" by (cases "f x")
    with assms(2) [of x] have "calls q tr' = 0" by simp
    with Pair Inr fx assms(1) show ?thesis by (simp add: bind_o_def calls_append)
  qed
qed

lemma quiet_then_o:
  "calls q (snd c) = 0 \<Longrightarrow> calls q (snd d) = 0 \<Longrightarrow> calls q (snd (then_o c d)) = 0"
  by (simp add: then_o_def quiet_bind_o)

lemma quiet_except_Exception:
  assumes "calls q (snd c) = 0" and "\<And>e. calls q (snd (h e)) = 0"
  shows "calls q (snd (except_Exception c h)) = 0"
proof (cases c)
  case (Pair r tr)
  show ?thesis
  proof (cases r)
    case (Inl e)
    obtain r' tr' where he: "h e = (r', tr')" by (cases "h e")
    with assms(2) [of e] have "calls q tr' = 0" by simp
    with Pair Inl he assms(1) show ?thesis by (simp add: except_Exception_def calls_append)
  next
    case (Inr x)
    with Pair assms(1) show ?thesis by (simp add: except_Exception_def)
  qed
qed

lemma quiet_except_only:
  "calls q (snd c) = 0 \<Longrightarrow> calls q (snd h) = 0 \<Longrightarrow> calls q (snd (except_only x c h)) = 0"
  by (cases c; cases h) (auto simp add: except_only_def calls_append split: sum.splits)

lemma quiet_except_bare:
  "calls q (snd c) = 0 \<Longrightarrow> calls q (snd h) = 0 \<Longrightarrow> calls q (snd (except_bare c h)) = 0"
  by (cases c; cases h) (auto simp add: except_bare_def calls_append split: sum.splits)

lemma quiet_try_finally:
  "calls q (snd c) = 0 \<Longrightarrow> calls q (snd f) = 0 \<Longrightarrow> calls q (snd (try_finally c f)) = 0"
  by (simp add: snd_try_finally calls_append)

lemma quiet_exec: "Call q \<notin> set ss \<Longrightarrow> calls q (snd (exec w ss)) = 0"
  by (induction w ss rule: exec.induct)
     (auto simp add: quiet_then_o quiet_ret quiet_logging quiet_call)

lemmas quiet = quiet_ret quiet_logging quiet_read quiet_call quiet_bind_o quiet_then_o
  quiet_except_Exception quiet_except_only quiet_except_bare quiet_try_finally quiet_exec

lemma release_quiet_notify: "is_release q \<Longrightarrow> calls q (snd (notify_or_not w c a)) = 0"
  unfolding notify_or_not_def send_notification_def
  by (cases q) (auto intro!: quiet)

lemma release_quiet_pipeline_se: "is_release q \<Longrightarrow> calls q (snd (pipeline_se w c)) = 0"
  unfolding pipeline_se_def login_se_def submit_login_se_def policy_checkbox_se_def
    navigate_to_reschedule_se_def check_reschedule_availability_se_def busy_check_se_def
    submit_check_se_def
  by (cases q) (auto intro!: quiet release_quiet_notify split: option.splits)

lemma release_quiet_pipeline_pw: "is_release q \<Longrightarrow> calls q (snd (pipeline_pw w c)) = 0"
  unfolding pipeline_pw_def login_pw_def submit_login_pw_def policy_checkbox_pw_def
    verify_login_pw_def navigate_to_reschedule_pw_def check_reschedule_availability_pw_def
    busy_check_pw_def submit_check_pw_def
  by (cases q) (auto intro!: quiet release_quiet_notify split: option.splits)

lemma release_quiet_setup: "is_release q \<Longrightarrow> calls q (snd (fst (setup_driver w d))) = 0"
  unfolding setup_driver_def
  by (cases q) (auto intro!: quiet split: option.splits simp: calls_simps)

lemma release_quiet_start: "is_release q \<Longrightarrow> calls q (snd (fst (start_browser_pw w b))) = 0"
  unfolding start_browser_pw_def
  by (cases q) (auto intro!: quiet split: option.splits simp: calls_simps)

subsection \<open>The shape of a check\<close>

lemma check_se_shape:
  "fst (check_appointments_se w c d) =
     try_finally (guarded_se w c d) (quit_driver w (snd (setup_driver w d)))"
  by (cases "setup_driver w d") (simp add: check_appointments_se_def guarded_se_def)

lemma check_pw_shape:
  "fst (check_appointments_pw w c b) =
     try_finally (guarded_pw w c b)
       (close_browser_pw w (fst (snd (start_browser_pw w b))) (snd (snd (start_browser_pw w b))))"
  by (cases "start_browser_pw w b") (auto simp add: check_appointments_pw_def guarded_pw_def)

lemma check_se_handle: "snd (check_appointments_se w c d) = snd (setup_driver w d)"
  by (cases "setup_driver w d") (simp add: check_appointments_se_def)

lemma check_pw_handle: "snd (check_appointments_pw w c b) = fst (snd (start_browser_pw w b))"
  by (cases "start_browser_pw w b") (auto simp add: check_appointments_pw_def)

lemma guarded_se_quiet: "is_release q \<Longrightarrow> calls q (snd (guarded_se w c d)) = 0"
  unfolding guarded_se_def
  by (intro quiet release_quiet_setup release_quiet_pipeline_se)

lemma guarded_pw_quiet: "is_release q \<Longrightarrow> calls q (snd (guarded_pw w c b)) = 0"
  unfolding guarded_pw_def
  by (intro quiet release_quiet_start release_quiet_pipeline_pw)

subsection \<open>Release of the browser\<close>

lemma release_once_se:
  assumes "session_created_se w"
  shows "calls (Driver_quit (fresh d)) (snd (fst (check_appointments_se w c d))) = 1"
    and "s \<noteq> fresh d \<Longrightarrow> calls (Driver_quit s) (snd (fst (check_appointments_se w c d))) = 0"
    and "fst (fst (check_appointments_se w c d)) = Inr r \<Longrightarrow>
           last (snd (fst (check_appointments_se w c d))) = Done (Driver_quit (fresh d))"
proof -
  have d': "snd (setup_driver w d) = Some (fresh d)"
    using assms by (simp add: session_created_se_def setup_driver_def)
  show "calls (Driver_quit (fresh d)) (snd (fst (check_appointments_se w c d))) = 1"
    by (simp add: check_se_shape snd_try_finally calls_append guarded_se_quiet d'
        quit_driver_def call_def calls_simps split: option.splits)
  show "calls (Driver_quit s) (snd (fst (check_appointments_se w c d))) = 0" if "s \<noteq> fresh d"
    using that
    by (simp add: check_se_shape snd_try_finally calls_append guarded_se_quiet d'
        quit_driver_def call_def calls_simps split: option.splits)
  show "last (snd (fst (check_appointments_se w c d))) = Done (Driver_quit (fresh d))"
    if "fst (fst (check_appointments_se w c d)) = Inr r"
    using that
    by (simp add: check_se_shape snd_try_finally fst_try_finally d' quit_driver_def call_def
        split: option.splits sum.splits)
qed

lemma release_once_pw:
  assumes "session_created_pw w"
  shows "calls (Browser_close (fresh b)) (snd (fst (check_appointments_pw w c b))) = 1"
    and "s \<noteq> fresh b \<Longrightarrow> calls (Browser_close s) (snd (fst (check_appointments_pw w c b))) = 0"
    and "fst (fst (check_appointments_pw w c b)) = Inr r \<Longrightarrow>
           Done (Browser_close (fresh b)) \<in> set (snd (fst (check_appointments_pw w c b)))"
proof -
  have b': "snd (start_browser_pw w b) = (Some (fresh b), True)"
    using assms by (simp add: session_created_pw_def start_browser_pw_def)
  show "calls (Browser_close (fresh b)) (snd (fst (check_appointments_pw w c b))) = 1"
    by (simp add: check_pw_shape snd_try_finally calls_append guarded_pw_quiet b'
        close_browser_pw_def call_def then_o_def bind_o_def calls_simps split: option.splits)
  show "calls (Browser_close s) (snd (fst (check_appointments_pw w c b))) = 0" if "s \<noteq> fresh b"
    using that
    by (simp add: check_pw_shape snd_try_finally calls_append guarded_pw_quiet b'
        close_browser_pw_def call_def then_o_def bind_o_def calls_simps split: option.splits)
  show "Done (Browser_close (fresh b)) \<in> set (snd (fst (check_appointments_pw w c b)))"
    if "fst (fst (check_appointments_pw w c b)) = Inr r"
    using that
    by (simp add: check_pw_shape snd_try_finally fst_try_finally b' close_browser_pw_def
        call_def then_o_def bind_o_def split: option.splits sum.splits)
qed

text \<open>
  C5. In both monitors, a check that created its browser session issues the release of
  that session (\<^verbatim>\<open>driver.quit()\<close>, \<^verbatim>\<open>browser.close()\<close>) exactly once and of no other
  session, whatever the world does afterwards: after a completed probe, a failed login, a
  failed navigation, an exception in the probe or anywhere else in the \<^verbatim>\<open>try\<close> block.
  When \<^verbatim>\<open>check_appointments\<close> returns, that release has completed; in snoop_bot.py it is
  the last thing the check did.
\<close>

theorem browser_released_once:
  "(session_created_se w \<longrightarrow>
      calls (Driver_quit (fresh d)) (snd (fst (check_appointments_se w c d))) = 1 \<and>
      (\<forall>s. s \<noteq> fresh d \<longrightarrow> calls (Driver_quit s) (snd (fst (check_appointments_se w c d))) = 0) \<and>
      (\<forall>r. fst (fst (check_appointments_se w c d)) = Inr r \<longrightarrow>
         last (snd (fst (check_appointments_se w c d))) = Done (Driver_quit (fresh d)))) \<and>
   (session_created_pw w \<longrightarrow>
      calls (Browser_close (fresh b)) (snd (fst (check_appointments_pw w c b))) = 1 \<and>
      (\<forall>s. s \<noteq> fresh b \<longrightarrow> calls (Browser_close s) (snd (fst (check_appointments_pw w c b))) = 0) \<and>
      (\<forall>r. fst (fst (check_appointments_pw w c b)) = Inr r \<longrightarrow>
         Done (Browser_close (fresh b)) \<in> set (snd (fst (check_appointments_pw w c b)))))"
  by (intro conjI impI allI) (simp_all add: release_once_se release_once_pw)

theorem browser_released_once_witness:
  "session_created_se enabled_world \<and> session_created_pw enabled_world \<and>
   calls (Driver_quit 0) (snd (fst (check_appointments_se enabled_world sample_credentials None))) = 1 \<and>
   calls (Browser_close 0) (snd (fst (check_appointments_pw enabled_world sample_credentials None))) = 1 \<and>
   session_created_se (failing Goto_sign_in Timeout) \<and>
   session_created_pw (failing Goto_sign_in Timeout) \<and>
   fst (login_se (failing Goto_sign_in Timeout) sample_credentials) = Inr False \<and>
   fst (login_pw (failing Goto_sign_in Timeout) sample_credentials) = Inr False \<and>
   calls (Driver_quit 0)
     (snd (fst (check_appointments_se (failing Goto_sign_in Timeout) sample_credentials None))) = 1 \<and>
   calls (Browser_close 0)
     (snd (fst (check_appointments_pw (failing Goto_sign_in Timeout) sample_credentials None))) = 1 \<and>
   session_created_se (failing (Click Continue_link) Timeout) \<and>
   session_created_pw (failing (Click Continue_link) Timeout) \<and>
   fst (navigate_to_reschedule_se (failing (Click Continue_link) Timeout)) = Inr False \<and>
   fst (navigate_to_reschedule_pw (failing (Click Continue_link) Timeout)) = Inr False \<and>
   calls (Driver_quit 0)
     (snd (fst (check_appointments_se (failing (Click Continue_link) Timeout) sample_credentials None))) = 1 \<and>
   calls (Browser_close 0)
     (snd (fst (check_appointments_pw (failing (Click Continue_link) Timeout) sample_credentials None))) = 1 \<and>
   session_created_se (failing Select_calgary Other_exception) \<and>
   session_created_pw (failing Select_calgary Other_exception) \<and>
   calls (Driver_quit 0)
     (snd (fst (check_appointments_se (failing Select_calgary Other_exception) sample_credentials None))) = 1 \<and>
   calls (Browser_close 0)
     (snd (fst (check_appointments_pw (failing Select_calgary Other_exception) sample_credentials None))) = 1 \<and>
   session_created_se (failing Execute_cdp_cmd Other_exception) \<and>
   session_created_pw (failing New_context Other_exception) \<and>
   calls (Driver_quit 0)
     (snd (fst (check_appointments_se (failing Execute_cdp_cmd Other_exception) sample_credentials None))) = 1 \<and>
   calls (Browser_close 0)
     (snd (fst (check_appointments_pw (failing New_context Other_exception) sample_credentials None))) = 1"
proof -
  have created:
    "session_created_se enabled_world" "session_created_pw enabled_world"
    "session_created_se (failing Goto_sign_in Timeout)"
    "session_created_pw (failing Goto_sign_in Timeout)"
    "session_created_se (failing (Click Continue_link) Timeout)"
    "session_created_pw (failing (Click Continue_link) Timeout)"
    "session_created_se (failing Select_calgary Other_exception)"
    "session_created_pw (failing Select_calgary Other_exception)"
    "session_created_se (failing Execute_cdp_cmd Other_exception)"
    "session_created_pw (failing New_context Other_exception)"
    by (simp_all add: session_created_se_def session_created_pw_def world_defs)
  have paths:
    "fst (login_se (failing Goto_sign_in Timeout) sample_credentials) = Inr False"
    "fst (login_pw (failing Goto_sign_in Timeout) sample_credentials) = Inr False"
    "fst (navigate_to_reschedule_se (failing (Click Continue_link) Timeout)) = Inr False"
    "fst (navigate_to_reschedule_pw (failing (Click Continue_link) Timeout)) = Inr False"
    by (simp_all add: se_defs pw_defs world_defs o_defs)
  have zero: "fresh None = 0" by (simp add: fresh_def)
  show ?thesis
    using created paths
      browser_released_once [of enabled_world None sample_credentials None]
      browser_released_once [of "failing Goto_sign_in Timeout" None sample_credentials None]
      browser_released_once [of "failing (Click Continue_link) Timeout" None sample_credentials None]
      browser_released_once [of "failing Select_calgary Other_exception" None sample_credentials None]
      browser_released_once [of "failing Execute_cdp_cmd Other_exception" None sample_credentials None]
      browser_released_once [of "failing New_context Other_exception" None sample_credentials None]
    by (simp add: zero)
qed

subsection \<open>What a check returns\<close>

lemma fst_notify_or_not:
  "fst (notify_or_not w c a) =
     (if a then Inr False
      else case fst (send_notification w c available_subject available_message) of
             Inl e \<Rightarrow> Inl e | Inr x \<Rightarrow> Inr True)"
  by (simp add: notify_or_not_def fst_then_o ret_def logging_def split: sum.splits)

lemma notifier_raises_no_Exception:
  "fst (send_notification w c s m) = Inl e \<Longrightarrow> \<not> is_Exception e"
  by (auto simp add: send_notification_def o_defs split: option.splits if_splits)

lemma notify_raises_no_Exception:
  "fst (notify_or_not w c a) = Inl e \<Longrightarrow> \<not> is_Exception e"
  by (auto simp: fst_notify_or_not split: if_splits sum.splits
      dest: notifier_raises_no_Exception)

lemma fst_guarded_se:
  assumes "runs_to_probe_se w c d a"
  shows "fst (guarded_se w c d) = fst (notify_or_not w c a)"
proof -
  from assms have "fst (then_o (fst (setup_driver w d)) (pipeline_se w c)) =
      fst (notify_or_not w c a)"
    by (simp add: runs_to_probe_se_def pipeline_se_def fst_then_o fst_bind_o)
  then show ?thesis
    unfolding guarded_se_def
    by (cases "fst (notify_or_not w c a)")
       (simp_all add: fst_except_Exception_Inl fst_except_Exception_Inr
          notify_raises_no_Exception)
qed

lemma fst_guarded_pw:
  assumes "runs_to_probe_pw w c b a"
  shows "fst (guarded_pw w c b) = fst (notify_or_not w c a)"
proof -
  from assms have "fst (then_o (fst (start_browser_pw w b)) (pipeline_pw w c)) =
      fst (notify_or_not w c a)"
    by (simp add: runs_to_probe_pw_def pipeline_pw_def fst_then_o fst_bind_o)
  then show ?thesis
    unfolding guarded_pw_def
    by (cases "fst (notify_or_not w c a)")
       (simp_all add: fst_except_Exception_Inl fst_except_Exception_Inr
          notify_raises_no_Exception)
qed

lemma check_se_result:
  assumes "runs_to_probe_se w c d a"
  shows "fst (fst (check_appointments_se w c d)) =
     (case fst (quit_driver w (snd (setup_driver w d))) of
        Inl e \<Rightarrow> Inl e
      | Inr u \<Rightarrow> fst (notify_or_not w c a))"
  by (simp add: check_se_shape fst_try_finally fst_guarded_se [OF assms] split: sum.splits)

lemma check_pw_result:
  assumes "runs_to_probe_pw w c b a"
  shows "fst (fst (check_appointments_pw w c b)) =
     (case fst (close_browser_pw w (fst (snd (start_browser_pw w b)))
                  (snd (snd (start_browser_pw w b)))) of
        Inl e \<Rightarrow> Inl e
      | Inr u \<Rightarrow> fst (notify_or_not w c a))"
  by (simp add: check_pw_shape fst_try_finally fst_guarded_pw [OF assms] split: sum.splits)

lemma negated_se:
  assumes "runs_to_probe_se w c d a"
  shows "fst (fst (check_appointments_se w c d)) = Inr r \<Longrightarrow> r = (\<not> a)"
    and "notifier_returns w c \<Longrightarrow> teardown_returns_se w d \<Longrightarrow>
         fst (fst (check_appointments_se w c d)) = Inr (\<not> a)"
  by (auto simp: check_se_result [OF assms] fst_notify_or_not notifier_returns_def
      teardown_returns_se_def split: sum.splits if_splits)

lemma negated_pw:
  assumes "runs_to_probe_pw w c b a"
  shows "fst (fst (check_appointments_pw w c b)) = Inr r \<Longrightarrow> r = (\<not> a)"
    and "notifier_returns w c \<Longrightarrow> teardown_returns_pw w b \<Longrightarrow>
         fst (fst (check_appointments_pw w c b)) = Inr (\<not> a)"
  by (auto simp: check_pw_result [OF assms] fst_notify_or_not notifier_returns_def
      teardown_returns_pw_def split: sum.splits if_splits prod.splits)

text \<open>
  C10. In both monitors, when the browser starts, login and navigation succeed and the
  probe returns \<open>a\<close>, whatever \<^verbatim>\<open>check_appointments\<close> returns is \<open>\<not> a\<close>; and it does return
  (nothing is raised instead) when nothing interrupts the notifier and the \<^verbatim>\<open>finally\<close>
  block raises nothing. The returned boolean is the negation of the probe's answer.
\<close>

theorem check_returns_negated_probe:
  "(runs_to_probe_se w c d a \<longrightarrow>
      (\<forall>r. fst (fst (check_appointments_se w c d)) = Inr r \<longrightarrow> r = (\<not> a)) \<and>
      (notifier_returns w c \<and> teardown_returns_se w d \<longrightarrow>
         fst (fst (check_appointments_se w c d)) = Inr (\<not> a))) \<and>
   (runs_to_probe_pw w c b a \<longrightarrow>
      (\<forall>r. fst (fst (check_appointments_pw w c b)) = Inr r \<longrightarrow> r = (\<not> a)) \<and>
      (notifier_returns w c \<and> teardown_returns_pw w b \<longrightarrow>
         fst (fst (check_appointments_pw w c b)) = Inr (\<not> a)))"
  by (intro conjI impI allI) (auto dest: negated_se negated_pw)

theorem check_returns_negated_probe_witness:
  "runs_to_probe_se disabled_world sample_credentials None False \<and>
   runs_to_probe_pw disabled_world sample_credentials None False \<and>
   notifier_returns disabled_world sample_credentials \<and>
   teardown_returns_se disabled_world None \<and> teardown_returns_pw disabled_world None \<and>
   fst (fst (check_appointments_se disabled_world sample_credentials None)) = Inr True \<and>
   fst (fst (check_appointments_pw disabled_world sample_credentials None)) = Inr True \<and>
   runs_to_probe_se enabled_world sample_credentials None True \<and>
   runs_to_probe_pw enabled_world sample_credentials None True \<and>
   notifier_returns enabled_world sample_credentials \<and>
   teardown_returns_se enabled_world None \<and> teardown_returns_pw enabled_world None \<and>
   fst (fst (check_appointments_se enabled_world sample_credentials None)) = Inr False \<and>
   fst (fst (check_appointments_pw enabled_world sample_credentials None)) = Inr False"
proof -
  have runs:
    "runs_to_probe_se disabled_world sample_credentials None False"
    "runs_to_probe_pw disabled_world sample_credentials None False"
    "runs_to_probe_se enabled_world sample_credentials None True"
    "runs_to_probe_pw enabled_world sample_credentials None True"
    by (simp_all add: runs_to_probe_se_def runs_to_probe_pw_def se_defs pw_defs world_defs
        o_defs truthy_def)
  have leaves:
    "notifier_returns disabled_world sample_credentials"
    "teardown_returns_se disabled_world None" "teardown_returns_pw disabled_world None"
    "notifier_returns enabled_world sample_credentials"
    "teardown_returns_se enabled_world None" "teardown_returns_pw enabled_world None"
    by (simp_all add: notifier_returns_def teardown_returns_se_def teardown_returns_pw_def
        se_defs pw_defs world_defs o_defs)
  show ?thesis
    using runs leaves
      check_returns_negated_probe [of disabled_world sample_credentials None False None]
      check_returns_negated_probe [of enabled_world sample_credentials None True None]
    by simp
qed

subsection \<open>The notifier\<close>

lemma notifier_returns_without_interrupt:
  "(\<forall>st e. act w st = Some e \<longrightarrow> is_Exception e) \<Longrightarrow> fst (send_notification w c s m) = Inr ()"
  by (auto simp add: send_notification_def o_defs split: option.splits if_splits)

lemma notifier_sends_once: "send_attempts (snd (send_notification w c s m)) \<le> 1"
  by (auto simp add: send_notification_def o_defs send_attempts_def split: option.splits if_splits)

lemma notifier_opens_once: "calls Smtp_open (snd (send_notification w c s m)) \<le> 1"
  by (auto simp add: send_notification_def o_defs calls_def split: option.splits if_splits)

lemma notifier_logs:
  "fst (send_notification w c s m) = Inr () \<Longrightarrow>
   (\<exists>e. is_Exception e \<and>
        last (snd (send_notification w c s m)) =
          Log ERROR ''Failed to send notification: {}'' (Exn_arg e)) \<or>
   (mails_sent (snd (send_notification w c s m)) = 1 \<and>
    last (snd (send_notification w c s m)) = Log INFO ''Notification sent: {}'' (Str_arg s))"
  by (auto simp add: send_notification_def o_defs mails_sent_def split: option.splits if_splits)

text \<open>
  C8. \<^verbatim>\<open>send_notification\<close> lets no exception of class \<^verbatim>\<open>Exception\<close> out: when the world
  raises only such exceptions it returns, and what it ever raises is not of that class
  (an interrupt that arrives during the delivery). It opens the relay and tries to send at
  most once. When it returns, either the mail was sent and that is logged, or the last
  thing it did was to log the failure as an error.
\<close>

theorem notifier_swallows_failures:
  "(\<forall>e. fst (send_notification w c s m) = Inl e \<longrightarrow> \<not> is_Exception e) \<and>
   ((\<forall>st e. act w st = Some e \<longrightarrow> is_Exception e) \<longrightarrow> fst (send_notification w c s m) = Inr ()) \<and>
   send_attempts (snd (send_notification w c s m)) \<le> 1 \<and>
   calls Smtp_open (snd (send_notification w c s m)) \<le> 1 \<and>
   (fst (send_notification w c s m) = Inr () \<longrightarrow>
      (\<exists>e. is_Exception e \<and>
           last (snd (send_notification w c s m)) =
             Log ERROR ''Failed to send notification: {}'' (Exn_arg e)) \<or>
      (mails_sent (snd (send_notification w c s m)) = 1 \<and>
       last (snd (send_notification w c s m)) = Log INFO ''Notification sent: {}'' (Str_arg s)))"
  using notifier_raises_no_Exception [of w c s m]
    notifier_returns_without_interrupt [of w c s m]
    notifier_sends_once [of w c s m] notifier_opens_once [of w c s m]
    notifier_logs [of w c s m]
  by blast

theorem notifier_swallows_failures_witness:
  "(\<forall>st e. act (failing Smtp_starttls Other_exception) st = Some e \<longrightarrow> is_Exception e) = True \<and>
   fst (send_notification (failing Smtp_starttls Other_exception) sample_credentials
          started_subject started_message) = Inr () \<and>
   last (snd (send_notification (failing Smtp_starttls Other_exception) sample_credentials
          started_subject started_message)) =
     Log ERROR ''Failed to send notification: {}'' (Exn_arg Other_exception) \<and>
   mails_sent (snd (send_notification (failing Smtp_starttls Other_exception) sample_credentials
          started_subject started_message)) = 0 \<and>
   fst (send_notification (failing Smtp_open KeyboardInterrupt) sample_credentials
          started_subject started_message) = Inl KeyboardInterrupt \<and>
   is_Exception KeyboardInterrupt = False \<and>
   fst (send_notification enabled_world sample_credentials started_subject started_message) = Inr () \<and>
   mails_sent (snd (send_notification enabled_world sample_credentials
          started_subject started_message)) = 1"
proof -
  have only: "\<forall>st e. act (failing Smtp_starttls Other_exception) st = Some e \<longrightarrow> is_Exception e"
    by (simp add: world_defs)
  have run:
    "last (snd (send_notification (failing Smtp_starttls Other_exception) sample_credentials
          started_subject started_message)) =
     Log ERROR ''Failed to send notification: {}'' (Exn_arg Other_exception)"
    "mails_sent (snd (send_notification (failing Smtp_starttls Other_exception) sample_credentials
          started_subject started_message)) = 0"
    "fst (send_notification (failing Smtp_open KeyboardInterrupt) sample_credentials
          started_subject started_message) = Inl KeyboardInterrupt"
    "fst (send_notification enabled_world sample_credentials started_subject started_message) = Inr ()"
    "mails_sent (snd (send_notification enabled_world sample_credentials
          started_subject started_message)) = 1"
    by (simp_all add: send_notification_def world_defs o_defs mails_sent_def)
  show ?thesis
    using only run
      notifier_swallows_failures [of "failing Smtp_starttls Other_exception" sample_credentials
        started_subject started_message]
      notifier_swallows_failures [of "failing Smtp_open KeyboardInterrupt" sample_credentials
        started_subject started_message]
    by simp
qed

subsection \<open>The monitor loop\<close>

lemma loop_after_error:
  assumes "fst (fst (chk w d)) = Inl e" and "is_Exception e" and "act w (Sleep n) = None"
  shows "monitor_loop chk n (w # ws) d =
     after (Log INFO ''Starting appointment check...'' No_arg # snd (fst (chk w d)) @
            [Log ERROR ''Error in monitor loop: {}'' (Exn_arg e), Done (Sleep n)])
       (monitor_loop chk n ws (snd (chk w d)))"
proof -
  obtain r tr d' where c: "chk w d = ((r, tr), d')"
    by (cases "chk w d") auto
  with assms(1) have r: "r = Inl e" by simp
  from assms(2) have ne: "e \<noteq> KeyboardInterrupt" by auto
  show ?thesis
    using assms(2,3) ne by (simp add: c r o_defs)
qed

text \<open>
  C7. In both monitors, an iteration of the loop whose check raises an exception of class
  \<^verbatim>\<open>Exception\<close> logs it as an error, sleeps once for the configured interval, and goes on
  with the remaining iterations: the run of the loop is this iteration's trace (the start
  record, what the check did, the error record, one completed sleep) followed by the run
  of the loop on the worlds that remain, starting with the next check.
\<close>

theorem loop_survives_check_error:
  "(fst (fst (check_appointments_se w c d)) = Inl e \<and> is_Exception e \<and> act w (Sleep n) = None \<longrightarrow>
      monitor_loop (\<lambda>w. check_appointments_se w c) n (w # ws) d =
        after (Log INFO ''Starting appointment check...'' No_arg #
               snd (fst (check_appointments_se w c d)) @
               [Log ERROR ''Error in monitor loop: {}'' (Exn_arg e), Done (Sleep n)])
          (monitor_loop (\<lambda>w. check_appointments_se w c) n ws (snd (check_appointments_se w c d)))) \<and>
   (fst (fst (check_appointments_pw w c d)) = Inl e \<and> is_Exception e \<and> act w (Sleep n) = None \<longrightarrow>
      monitor_loop (\<lambda>w. check_appointments_pw w c) n (w # ws) d =
        after (Log INFO ''Starting appointment check...'' No_arg #
               snd (fst (check_appointments_pw w c d)) @
               [Log ERROR ''Error in monitor loop: {}'' (Exn_arg e), Done (Sleep n)])
          (monitor_loop (\<lambda>w. check_appointments_pw w c) n ws (snd (check_appointments_pw w c d))))"
  using loop_after_error [of "\<lambda>w. check_appointments_se w c" w d e n ws]
    loop_after_error [of "\<lambda>w. check_appointments_pw w c" w d e n ws]
  by blast

theorem loop_survives_check_error_witness:
  "fst (fst (check_appointments_se (failing (Driver_quit 0) Other_exception) sample_credentials None))
     = Inl Other_exception \<and>
   fst (fst (check_appointments_pw (failing (Browser_close 0) Other_exception) sample_credentials None))
     = Inl Other_exception \<and>
   is_Exception Other_exception = True \<and>
   act (failing (Driver_quit 0) Other_exception) (Sleep 30) = None \<and>
   act (failing (Browser_close 0) Other_exception) (Sleep 1800) = None \<and>
   fst (fst (monitor_loop (\<lambda>w. check_appointments_se w sample_credentials) 30
     [failing (Driver_quit 0) Other_exception, enabled_world] None)) = Still_running \<and>
   calls (Sleep 30) (snd (fst (monitor_loop (\<lambda>w. check_appointments_se w sample_credentials) 30
     [failing (Driver_quit 0) Other_exception, enabled_world] None))) = 2 \<and>
   calls Chrome_new (snd (fst (monitor_loop (\<lambda>w. check_appointments_se w sample_credentials) 30
     [failing (Driver_quit 0) Other_exception, enabled_world] None))) = 2 \<and>
   fst (fst (monitor_loop (\<lambda>w. check_appointments_pw w sample_credentials) 1800
     [failing (Browser_close 0) Other_exception, enabled_world] None)) = Still_running \<and>
   calls (Sleep 1800) (snd (fst (monitor_loop (\<lambda>w. check_appointments_pw w sample_credentials) 1800
     [failing (Browser_close 0) Other_exception, enabled_world] None))) = 2 \<and>
   calls Chromium_launch (snd (fst (monitor_loop (\<lambda>w. check_appointments_pw w sample_credentials) 1800
     [failing (Browser_close 0) Other_exception, enabled_world] None))) = 2"
proof -
  have raised:
    "fst (fst (check_appointments_se (failing (Driver_quit 0) Other_exception) sample_credentials None))
       = Inl Other_exception"
    "fst (fst (check_appointments_pw (failing (Browser_close 0) Other_exception) sample_credentials None))
       = Inl Other_exception"
    by (simp_all add: se_defs pw_defs world_defs o_defs truthy_def)
  have sleeps:
    "act (failing (Driver_quit 0) Other_exception) (Sleep 30) = None"
    "act (failing (Browser_close 0) Other_exception) (Sleep 1800) = None"
    by (simp_all add: world_defs)
  have handles:
    "snd (check_appointments_se (failing (Driver_quit 0) Other_exception) sample_credentials None) = Some 0"
    "snd (check_appointments_pw (failing (Browser_close 0) Other_exception) sample_credentials None) = Some 0"
    by (simp_all add: se_defs pw_defs world_defs)
  have first:
    "calls (Sleep 30) (snd (fst (check_appointments_se (failing (Driver_quit 0) Other_exception)
        sample_credentials None))) = 0"
    "calls Chrome_new (snd (fst (check_appointments_se (failing (Driver_quit 0) Other_exception)
        sample_credentials None))) = 1"
    "calls (Sleep 1800) (snd (fst (check_appointments_pw (failing (Browser_close 0) Other_exception)
        sample_credentials None))) = 0"
    "calls Chromium_launch (snd (fst (check_appointments_pw (failing (Browser_close 0) Other_exception)
        sample_credentials None))) = 1"
    by (simp_all add: se_defs pw_defs world_defs o_defs truthy_def calls_def)
  have rest:
    "monitor_loop (\<lambda>w. check_appointments_se w sample_credentials) 30 [enabled_world] (Some 0) =
       ((Still_running,
         Log INFO ''Starting appointment check...'' No_arg #
         snd (fst (check_appointments_se enabled_world sample_credentials (Some 0))) @
         [Log INFO ''Check complete. Waiting {} seconds until next check...'' (Nat_arg 30),
          Done (Sleep 30)]), Some 1)"
    "monitor_loop (\<lambda>w. check_appointments_pw w sample_credentials) 1800 [enabled_world] (Some 0) =
       ((Still_running,
         Log INFO ''Starting appointment check...'' No_arg #
         snd (fst (check_appointments_pw enabled_world sample_credentials (Some 0))) @
         [Log INFO ''Check complete. Waiting {} seconds until next check...'' (Nat_arg 1800),
          Done (Sleep 1800)]), Some 1)"
    by (simp_all add: se_defs pw_defs world_defs o_defs truthy_def after_def)
  have second:
    "calls (Sleep 30) (snd (fst (check_appointments_se enabled_world sample_credentials (Some 0)))) = 0"
    "calls Chrome_new (snd (fst (check_appointments_se enabled_world sample_credentials (Some 0)))) = 1"
    "calls (Sleep 1800) (snd (fst (check_appointments_pw enabled_world sample_credentials (Some 0)))) = 0"
    "calls Chromium_launch (snd (fst (check_appointments_pw enabled_world sample_credentials (Some 0)))) = 1"
    by (simp_all add: se_defs pw_defs world_defs o_defs truthy_def calls_def)
  have step_se:
    "monitor_loop (\<lambda>w. check_appointments_se w sample_credentials) 30
       [failing (Driver_quit 0) Other_exception, enabled_world] None =
     after (Log INFO ''Starting appointment check...'' No_arg #
            snd (fst (check_appointments_se (failing (Driver_quit 0) Other_exception)
                   sample_credentials None)) @
            [Log ERROR ''Error in monitor loop: {}'' (Exn_arg Other_exception), Done (Sleep 30)])
       (monitor_loop (\<lambda>w. check_appointments_se w sample_credentials) 30 [enabled_world]
          (snd (check_appointments_se (failing (Driver_quit 0) Other_exception)
                  sample_credentials None)))"
    using raised(1) sleeps(1)
      loop_survives_check_error [of "failing (Driver_quit 0) Other_exception" sample_credentials
        None Other_exception 30 "[enabled_world]"]
    by (simp del: monitor_loop.simps)
  have step_pw:
    "monitor_loop (\<lambda>w. check_appointments_pw w sample_credentials) 1800
       [failing (Browser_close 0) Other_exception, enabled_world] None =
     after (Log INFO ''Starting appointment check...'' No_arg #
            snd (fst (check_appointments_pw (failing (Browser_close 0) Other_exception)
                   sample_credentials None)) @
            [Log ERROR ''Error in monitor loop: {}'' (Exn_arg Other_exception), Done (Sleep 1800)])
       (monitor_loop (\<lambda>w. check_appointments_pw w sample_credentials) 1800 [enabled_world]
          (snd (check_appointments_pw (failing (Browser_close 0) Other_exception)
                  sample_credentials None)))"
    using raised(2) sleeps(2)
      loop_survives_check_error [of "failing (Browser_close 0) Other_exception" sample_credentials
        None Other_exception 1800 "[enabled_world]"]
    by (simp del: monitor_loop.simps)
  show ?thesis
    using raised sleeps
    by (simp add: step_se step_pw handles rest first second after_def calls_append calls_simps
        del: monitor_loop.simps)
qed

subsection \<open>When a mail is sent\<close>

text \<open>
  C1, on the code. With login, navigation and probe all completing: when the submit
  control is enabled the probe's verdict is Available, and the check tries no send at all
  and returns \<^verbatim>\<open>False\<close>; when the control is disabled the verdict is Unavailable, and the
  check sends the "appointment available" mail once and returns \<^verbatim>\<open>True\<close>. The same in both
  monitors.
\<close>

theorem mail_sent_when_unavailable:
  "verdict (check_reschedule_availability_se enabled_world) = Some Available \<and>
   fst (fst (check_appointments_se enabled_world sample_credentials None)) = Inr False \<and>
   send_attempts (snd (fst (check_appointments_se enabled_world sample_credentials None))) = 0 \<and>
   verdict (check_reschedule_availability_pw enabled_world) = Some Available \<and>
   fst (fst (check_appointments_pw enabled_world sample_credentials None)) = Inr False \<and>
   send_attempts (snd (fst (check_appointments_pw enabled_world sample_credentials None))) = 0 \<and>
   verdict (check_reschedule_availability_se disabled_world) = Some Unavailable \<and>
   fst (fst (check_appointments_se disabled_world sample_credentials None)) = Inr True \<and>
   mails_sent (snd (fst (check_appointments_se disabled_world sample_credentials None))) = 1 \<and>
   Done (Smtp_send_message available_mail)
     \<in> set (snd (fst (check_appointments_se disabled_world sample_credentials None))) \<and>
   verdict (check_reschedule_availability_pw disabled_world) = Some Unavailable \<and>
   fst (fst (check_appointments_pw disabled_world sample_credentials None)) = Inr True \<and>
   mails_sent (snd (fst (check_appointments_pw disabled_world sample_credentials None))) = 1 \<and>
   Done (Smtp_send_message available_mail)
     \<in> set (snd (fst (check_appointments_pw disabled_world sample_credentials None)))"
  by (simp add: se_defs pw_defs world_defs o_defs truthy_def verdict_def errors_def
      send_attempts_def mails_sent_def available_mail_def sample_credentials_def)

text \<open>
  C4, on the code. When the selection of the location raises, the probe logs the error
  and returns \<^verbatim>\<open>False\<close> (Indeterminate), and the check then sends the "appointment
  available" mail, in both monitors.
\<close>

theorem mail_sent_when_probe_fails:
  "verdict (check_reschedule_availability_se (failing Select_calgary Other_exception))
     = Some Indeterminate \<and>
   fst (fst (check_appointments_se (failing Select_calgary Other_exception) sample_credentials None))
     = Inr True \<and>
   mails_sent (snd (fst (check_appointments_se (failing Select_calgary Other_exception)
     sample_credentials None))) = 1 \<and>
   Done (Smtp_send_message available_mail)
     \<in> set (snd (fst (check_appointments_se (failing Select_calgary Other_exception)
          sample_credentials None))) \<and>
   verdict (check_reschedule_availability_pw (failing Select_calgary Other_exception))
     = Some Indeterminate \<and>
   fst (fst (check_appointments_pw (failing Select_calgary Other_exception) sample_credentials None))
     = Inr True \<and>
   mails_sent (snd (fst (check_appointments_pw (failing Select_calgary Other_exception)
     sample_credentials None))) = 1 \<and>
   Done (Smtp_send_message available_mail)
     \<in> set (snd (fst (check_appointments_pw (failing Select_calgary Other_exception)
          sample_credentials None)))"
  by (simp add: se_defs pw_defs world_defs o_defs truthy_def verdict_def errors_def
      mails_sent_def available_mail_def sample_credentials_def)

subsection \<open>Login and the sign-in page\<close>

text \<open>
  C3, on the code. With every call of the submission completing and the browser still at
  the sign-in URL afterwards, \<^verbatim>\<open>login\<close> of snoop_bot.py returns \<^verbatim>\<open>True\<close>, while \<^verbatim>\<open>login\<close> of
  visa_monitor.py returns \<^verbatim>\<open>False\<close>; after a redirect both return \<^verbatim>\<open>True\<close>.
\<close>

theorem login_se_ignores_location:
  "fst (submit_login_se stuck_world sample_credentials) = Inr () \<and>
   page_url stuck_world = Inr sign_in_url \<and>
   fst (login_se stuck_world sample_credentials) = Inr True \<and>
   fst (submit_login_pw stuck_world sample_credentials) = Inr () \<and>
   fst (login_pw stuck_world sample_credentials) = Inr False \<and>
   fst (login_se enabled_world sample_credentials) = Inr True \<and>
   fst (login_pw enabled_world sample_credentials) = Inr True"
  by (simp add: se_defs pw_defs world_defs o_defs sign_in_url_def)

text \<open>
  C9, on the code. In one and the same world (every call completes, the submit control
  is disabled, the browser stays at the sign-in URL) the two monitors return different
  booleans from \<^verbatim>\<open>login\<close> and from \<^verbatim>\<open>check_appointments\<close>, and only snoop_bot.py sends a
  mail.
\<close>

theorem backends_disagree_on_sign_in_page:
  "fst (login_se stuck_world sample_credentials) \<noteq> fst (login_pw stuck_world sample_credentials) \<and>
   fst (fst (check_appointments_se stuck_world sample_credentials None)) = Inr True \<and>
   fst (fst (check_appointments_pw stuck_world sample_credentials None)) = Inr False \<and>
   mails_sent (snd (fst (check_appointments_se stuck_world sample_credentials None))) = 1 \<and>
   mails_sent (snd (fst (check_appointments_pw stuck_world sample_credentials None))) = 0"
  by (simp add: se_defs pw_defs world_defs o_defs sign_in_url_def truthy_def mails_sent_def)

subsection \<open>Start-up\<close>

lemma snd_bind_o_subset: "set (snd c) \<subseteq> set (snd (bind_o c f))"
  by (cases c) (auto simp add: bind_o_def split: sum.splits prod.splits)

lemma snd_then_o_subset: "set (snd c) \<subseteq> set (snd (then_o c d))"
  by (simp add: then_o_def snd_bind_o_subset)

lemma snd_then_o_Inr: "fst c = Inr x \<Longrightarrow> snd (then_o c d) = snd c @ snd d"
  by (cases c; cases d) (simp add: then_o_def bind_o_def)

lemma snd_except_Exception_subset: "set (snd c) \<subseteq> set (snd (except_Exception c h))"
  by (cases c) (auto simp add: except_Exception_def split: sum.splits prod.splits)

lemma snd_fst_after: "snd (fst (after tr r)) = tr @ snd (fst r)"
  by (cases r) (auto simp add: after_def)

lemma setup_in_check_se:
  "set (snd (fst (setup_driver w d))) \<subseteq> set (snd (fst (check_appointments_se w c d)))"
proof -
  have "set (snd (fst (setup_driver w d))) \<subseteq> set (snd (guarded_se w c d))"
    unfolding guarded_se_def
    using snd_then_o_subset snd_except_Exception_subset by (rule subset_trans)
  then show ?thesis by (auto simp add: check_se_shape snd_try_finally)
qed

lemma start_in_check_pw:
  "set (snd (fst (start_browser_pw w b))) \<subseteq> set (snd (fst (check_appointments_pw w c b)))"
proof -
  have "set (snd (fst (start_browser_pw w b))) \<subseteq> set (snd (guarded_pw w c b))"
    unfolding guarded_pw_def
    using snd_then_o_subset snd_except_Exception_subset by (rule subset_trans)
  then show ?thesis by (auto simp add: check_pw_shape snd_try_finally)
qed

lemma created_in_setup:
  "session_created_se w \<Longrightarrow> Done Chrome_new \<in> set (snd (fst (setup_driver w d)))"
  by (simp add: session_created_se_def setup_driver_def snd_then_o_Inr)

lemma created_in_start:
  "session_created_pw w \<Longrightarrow> Done Chromium_launch \<in> set (snd (fst (start_browser_pw w b)))"
  by (simp add: session_created_pw_def start_browser_pw_def snd_then_o_Inr)

lemma check_in_loop:
  "set (snd (fst (chk w d))) \<subseteq> set (snd (fst (monitor_loop chk n (w # ws) d)))"
proof -
  obtain r tr d' where c: "chk w d = ((r, tr), d')"
    by (cases "chk w d") auto
  show ?thesis
    by (cases r)
       (auto simp add: c then_o_def bind_o_def logging_def call_def snd_fst_after
          split: option.splits)
qed

lemma loop_in_run:
  assumes "fst (send_notification w0 c started_subject started_message) = Inr ()"
  shows "set (snd (fst (monitor_loop chk n ws d))) \<subseteq> set (snd (fst (run_monitor chk w0 c n ws d)))"
proof -
  obtain tr where s: "send_notification w0 c started_subject started_message = (Inr (), tr)"
    using assms by (cases "send_notification w0 c started_subject started_message") auto
  show ?thesis
    by (auto simp add: run_monitor_def s then_o_def bind_o_def logging_def snd_fst_after)
qed

lemma launch_in_check_once:
  assumes "session_created_pw w"
  shows "Done Chromium_launch \<in> set (snd (main_check_once getenv w))"
proof -
  have "Done Chromium_launch
      \<in> set (snd (fst (check_appointments_pw w (credentials_of_env getenv) None)))"
    using created_in_start [OF assms] start_in_check_pw by blast
  moreover have "set (snd (fst (check_appointments_pw w (credentials_of_env getenv) None)))
      \<subseteq> set (snd (main_check_once getenv w))"
    unfolding main_check_once_def
    using snd_then_o_subset [of "fst (check_appointments_pw w (credentials_of_env getenv) None)"]
    by (auto simp add: snd_then_o_Inr logging_def)
  ultimately show ?thesis by blast
qed

lemma launch_in_snoop_bot:
  assumes "session_created_se w"
    and "fst (send_notification w0 (credentials_of_env getenv) started_subject started_message) = Inr ()"
  shows "Done Chrome_new \<in> set (snd (fst (main_snoop_bot getenv w0 (w # ws))))"
proof -
  have "Done Chrome_new
      \<in> set (snd (fst (check_appointments_se w (credentials_of_env getenv) None)))"
    using created_in_setup [OF assms(1)] setup_in_check_se by blast
  then have "Done Chrome_new \<in> set (snd (fst (monitor_loop
      (\<lambda>w. check_appointments_se w (credentials_of_env getenv)) 30 (w # ws) None)))"
    using check_in_loop [of "\<lambda>w. check_appointments_se w (credentials_of_env getenv)" w None 30 ws]
    by blast
  then show ?thesis
    unfolding main_snoop_bot_def run_monitor_se_def
    using loop_in_run [OF assms(2)] by blast
qed

lemma launch_in_visa_monitor:
  assumes "session_created_pw w"
    and "fst (send_notification w0 (credentials_of_env getenv) started_subject started_message) = Inr ()"
  shows "Done Chromium_launch \<in> set (snd (fst (main_visa_monitor getenv w0 (w # ws))))"
proof -
  have "Done Chromium_launch
      \<in> set (snd (fst (check_appointments_pw w (credentials_of_env getenv) None)))"
    using created_in_start [OF assms(1)] start_in_check_pw by blast
  then have "Done Chromium_launch \<in> set (snd (fst (monitor_loop
      (\<lambda>w. check_appointments_pw w (credentials_of_env getenv)) 1800 (w # ws) None)))"
    using check_in_loop [of "\<lambda>w. check_appointments_pw w (credentials_of_env getenv)" w None 1800 ws]
    by blast
  then show ?thesis
    unfolding main_visa_monitor_def run_monitor_pw_def
    using loop_in_run [OF assms(2)] by blast
qed

text \<open>
  C6 fails as stated. With \<^verbatim>\<open>VISA_EMAIL\<close> not set, the single-shot entry point still
  launches the browser, passes \<^verbatim>\<open>None\<close> to the email field (here the call raises), and
  ends normally; the continuous entry point of snoop_bot.py creates its browser session
  as well.
\<close>

theorem missing_credentials_reach_browser:
  "email (credentials_of_env env_without_email) = None \<and>
   Done Chromium_launch
     \<in> set (snd (main_check_once env_without_email (failing (Fill User_email None) Other_exception))) \<and>
   Failed (Fill User_email None) Other_exception
     \<in> set (snd (main_check_once env_without_email (failing (Fill User_email None) Other_exception))) \<and>
   fst (main_check_once env_without_email (failing (Fill User_email None) Other_exception)) = Inr () \<and>
   Done Chrome_new
     \<in> set (snd (fst (main_snoop_bot env_without_email enabled_world
          [failing (Send_keys User_email None) Other_exception])))"
  by (simp add: main_check_once_def main_snoop_bot_def run_monitor_se_def run_monitor_def
      credentials_of_env_def env_without_email_def se_defs pw_defs world_defs o_defs after_def
      started_subject_def started_message_def)

text \<open>
  C6, as the code has it. No entry point looks at what \<^verbatim>\<open>os.getenv\<close> returned: for every
  environment, also one in which variables are missing, the single-shot entry point
  creates a browser session whenever the browser engine starts, and the two continuous
  entry points do so in their first iteration once the start-up mail has been attempted.
\<close>

theorem startup_without_validation:
  "(session_created_pw w \<longrightarrow> Done Chromium_launch \<in> set (snd (main_check_once getenv w))) \<and>
   (session_created_se w \<and>
    fst (send_notification w0 (credentials_of_env getenv) started_subject started_message) = Inr () \<longrightarrow>
      Done Chrome_new \<in> set (snd (fst (main_snoop_bot getenv w0 (w # ws))))) \<and>
   (session_created_pw w \<and>
    fst (send_notification w0 (credentials_of_env getenv) started_subject started_message) = Inr () \<longrightarrow>
      Done Chromium_launch \<in> set (snd (fst (main_visa_monitor getenv w0 (w # ws)))))"
  using launch_in_check_once launch_in_snoop_bot launch_in_visa_monitor by blast

theorem startup_without_validation_witness:
  "credentials_of_env (\<lambda>v. None) =
     \<lparr>email = None, password = None, notification_email = None, smtp_email = None,
      smtp_password = None\<rparr> \<and>
   session_created_pw enabled_world \<and> session_created_se enabled_world \<and>
   fst (send_notification enabled_world (credentials_of_env (\<lambda>v. None))
          started_subject started_message) = Inr () \<and>
   Done Chromium_launch \<in> set (snd (main_check_once (\<lambda>v. None) enabled_world)) \<and>
   Done Chrome_new \<in> set (snd (fst (main_snoop_bot (\<lambda>v. None) enabled_world [enabled_world]))) \<and>
   Done Chromium_launch
     \<in> set (snd (fst (main_visa_monitor (\<lambda>v. None) enabled_world [enabled_world])))"
proof -
  have hyps:
    "session_created_pw enabled_world" "session_created_se enabled_world"
    "fst (send_notification enabled_world (credentials_of_env (\<lambda>v. None))
          started_subject started_message) = Inr ()"
    by (simp_all add: session_created_pw_def session_created_se_def world_defs
        send_notification_def o_defs)
  show ?thesis
    using hyps
      startup_without_validation [of enabled_world "\<lambda>v. None" enabled_world "[]"]
    by (simp add: credentials_of_env_def)
qed

end
